theory Spec2Isabelle
  imports Complex_Main "HOL-Library.AList"
begin

section \<open>Python values used by the meal recommender\<close>

subsection \<open>Strings\<close>

text \<open>
  \<open>str.lower()\<close> on ASCII text: the letters A to Z move to a to z, every other character
  stays. Labels, goals and preferences are taken to be ASCII.
\<close>

definition lower_char :: "char \<Rightarrow> char" where
  "lower_char c =
     (let n = (of_char c :: nat) in if 65 \<le> n \<and> n \<le> 90 then char_of (n + 32) else c)"

definition lower :: "string \<Rightarrow> string" where
  "lower s = map lower_char s"

text \<open>\<open>needle in haystack\<close> on strings: the needle occurs as a contiguous run.\<close>

fun starts_with :: "string \<Rightarrow> string \<Rightarrow> bool" where
  "starts_with [] s = True"
| "starts_with (p # ps) [] = False"
| "starts_with (p # ps) (c # cs) = (p = c \<and> starts_with ps cs)"

fun str_in :: "string \<Rightarrow> string \<Rightarrow> bool" where
  "str_in p [] = (p = [])"
| "str_in p (c # cs) = (starts_with p (c # cs) \<or> str_in p cs)"

text \<open>
  \<open>Series.str.contains('|'.join(keywords))\<close>: the pattern is an alternation of plain
  words, so a label matches when one of the words occurs in it.
\<close>

definition contains_any :: "string list \<Rightarrow> string \<Rightarrow> bool" where
  "contains_any keywords s = list_ex (\<lambda>k. str_in k s) keywords"

text \<open>\<open>str.replace(' ', '-')\<close>.\<close>

definition replace_space :: "string \<Rightarrow> string" where
  "replace_space s = map (\<lambda>c. if c = CHR '' '' then CHR ''-'' else c) s"

subsection \<open>Floats\<close>

text \<open>
  A Python float is an IEEE 754 double. It is modelled by the rational number it denotes;
  every arithmetic operation computes the exact rational result and rounds it to the
  nearest number with a 53 bit significand, ties to the even significand (\<open>fl\<close>).
  The exponent is not bounded: overflow to infinity, subnormal numbers and NaN are
  outside the model, so the model agrees with Python wherever no intermediate value
  leaves the range of normal doubles.
\<close>

definition rne :: "rat \<Rightarrow> int" where
  "rne x =
     (let f = \<lfloor>x\<rfloor>; d = x - of_int f in
      if d < 1 / 2 then f
      else if 1 / 2 < d then f + 1
      else if even f then f else f + 1)"

function bit_length :: "int \<Rightarrow> int" where
  "bit_length n = (if n \<le> 0 then 0 else 1 + bit_length (n div 2))"
  by pat_completeness auto
termination
  by (relation "measure nat") auto

declare bit_length.simps [simp del]

text \<open>The binary exponent of a non-zero rational: \<open>2 powi expo x \<le> \<bar>x\<bar> < 2 powi (expo x + 1)\<close>.\<close>

definition expo :: "rat \<Rightarrow> int" where
  "expo x =
     (if 1 \<le> \<bar>x\<bar> then bit_length \<lfloor>\<bar>x\<bar>\<rfloor> - 1
      else - bit_length (\<lceil>1 / \<bar>x\<bar>\<rceil> - 1))"

definition fl :: "rat \<Rightarrow> rat" where
  "fl x =
     (if x = 0 then 0
      else let e = expo x - 52 in of_int (rne (x / 2 powi e)) * 2 powi e)"

text \<open>\<open>int(x)\<close> of a float truncates toward zero; \<open>round(x)\<close> rounds half to even.\<close>

definition py_int :: "rat \<Rightarrow> int" where
  "py_int x = (if 0 \<le> x then \<lfloor>x\<rfloor> else \<lceil>x\<rceil>)"

definition py_round :: "rat \<Rightarrow> int" where
  "py_round x = rne x"

text \<open>
  \<open>round(x, 1)\<close> and \<open>round(x, 2)\<close>: the double nearest to the decimal rounding of
  the exact value of \<open>x\<close>.
\<close>

definition py_round_nd :: "nat \<Rightarrow> rat \<Rightarrow> rat" where
  "py_round_nd n x = fl (of_int (rne (x * 10 ^ n)) / 10 ^ n)"

text \<open>
  \<open>round(x, n)\<close> of a \<open>numpy.float64\<close>: numpy multiplies by \<open>10 ** n\<close>, rounds the
  product to the nearest integer, ties to even (\<open>rint\<close>), and divides by \<open>10 ** n\<close>;
  the product and the quotient are rounded as every float operation is.
\<close>

definition np_round :: "nat \<Rightarrow> rat \<Rightarrow> rat" where
  "np_round n x = fl (of_int (rne (fl (x * 10 ^ n))) / 10 ^ n)"

subsection \<open>Errors and dictionary entries\<close>

datatype py_error = TypeError | AttributeError | ValueError

text \<open>
  An entry of the profile dictionary: the key is missing, the key holds \<open>None\<close>, or the
  key holds a value. The value types are those of the user table: height and weight are
  floats, age is an integer, the other entries are strings.
\<close>

datatype 'a field = Absent | Null | Val 'a

definition present :: "'a field \<Rightarrow> bool" where
  "present f = (f \<noteq> Absent)"

record user_profile =
  weight :: "rat field"
  height :: "rat field"
  age :: "int field"
  gender :: "string field"
  activity_level :: "string field"
  goals :: "string field"
  dietary_preferences :: "string field"

text \<open>\<open>float(v)\<close>, \<open>int(v)\<close> and \<open>v.lower()\<close> of a dictionary value that is known to be present.\<close>

definition py_float :: "rat field \<Rightarrow> py_error + rat" where
  "py_float v = (case v of Val x \<Rightarrow> Inr (fl x) | _ \<Rightarrow> Inl TypeError)"

definition py_int_of :: "int field \<Rightarrow> py_error + int" where
  "py_int_of v = (case v of Val x \<Rightarrow> Inr x | _ \<Rightarrow> Inl TypeError)"

definition py_lower :: "string field \<Rightarrow> py_error + string" where
  "py_lower v = (case v of Val s \<Rightarrow> Inr (lower s) | _ \<Rightarrow> Inl AttributeError)"

section \<open>Daily calories\<close>

definition activity_multipliers :: "(string \<times> rat) list" where
  "activity_multipliers =
     [(''sedentary'', fl (12 / 10)),
      (''lightly_active'', fl (1375 / 1000)),
      (''moderately_active'', fl (155 / 100)),
      (''very_active'', fl (1725 / 1000)),
      (''extra_active'', fl (19 / 10))]"

text \<open>\<open>activity_multipliers.get(activity_level, 1.55)\<close>; a \<open>None\<close> level is no key of the table.\<close>

definition activity_multiplier :: "string field \<Rightarrow> rat" where
  "activity_multiplier a =
     (case a of
        Val s \<Rightarrow> (case map_of activity_multipliers s of Some m \<Rightarrow> m | None \<Rightarrow> fl (155 / 100))
      | _ \<Rightarrow> fl (155 / 100))"

text \<open>\<open>10 * weight + 6.25 * height - 5 * age \<plusminus> c\<close>, evaluated left to right.\<close>

definition mifflin :: "rat \<Rightarrow> rat \<Rightarrow> int \<Rightarrow> string \<Rightarrow> rat" where
  "mifflin w h a g =
     (let s = fl (fl (fl (10 * w) + fl (fl (625 / 100) * h)) - fl (of_int (5 * a))) in
      if g = ''male'' then fl (s + 5) else fl (s - 161))"

definition goal_adjust :: "string field \<Rightarrow> rat \<Rightarrow> py_error + rat" where
  "goal_adjust gl daily =
     (if present gl then
        (case py_lower gl of
           Inl e \<Rightarrow> Inl e
         | Inr g \<Rightarrow>
             if str_in ''weight_loss'' g then Inr (fl (daily * fl (85 / 100)))
             else if str_in ''weight_gain'' g then Inr (fl (daily * fl (115 / 100)))
             else Inr daily)
      else Inr daily)"

definition calculate_daily_calories :: "user_profile \<Rightarrow> py_error + int" where
  "calculate_daily_calories p =
     (if present (weight p) \<and> present (height p) \<and> present (age p) \<and> present (gender p)
         \<and> present (activity_level p)
      then
        (case py_float (weight p) of Inl e \<Rightarrow> Inl e | Inr w \<Rightarrow>
         case py_float (height p) of Inl e \<Rightarrow> Inl e | Inr h \<Rightarrow>
         case py_int_of (age p) of Inl e \<Rightarrow> Inl e | Inr a \<Rightarrow>
         case py_lower (gender p) of Inl e \<Rightarrow> Inl e | Inr g \<Rightarrow>
           (let base_calories = mifflin w h a g;
                daily_calories = fl (base_calories * activity_multiplier (activity_level p))
            in case goal_adjust (goals p) daily_calories of
                 Inl e \<Rightarrow> Inl e
               | Inr d \<Rightarrow> Inr (py_int d)))
      else Inr 1800)"

section \<open>Macronutrient targets\<close>

record macros =
  protein_g :: int
  carbs_g :: int
  fat_g :: int
  protein_pct :: rat
  carbs_pct :: rat
  fat_pct :: rat

text \<open>The split chosen from the goal text: protein, carbs, fat.\<close>

definition macro_split :: "string field \<Rightarrow> py_error + rat \<times> rat \<times> rat" where
  "macro_split gl =
     (if present gl then
        (case py_lower gl of
           Inl e \<Rightarrow> Inl e
         | Inr g \<Rightarrow>
             if str_in ''weight_loss'' g then Inr (fl (30 / 100), fl (40 / 100), fl (30 / 100))
             else if str_in ''weight_gain'' g then Inr (fl (25 / 100), fl (55 / 100), fl (20 / 100))
             else if str_in ''muscle_gain'' g then Inr (fl (35 / 100), fl (45 / 100), fl (20 / 100))
             else Inr (fl (25 / 100), fl (5 / 10), fl (25 / 100)))
      else Inr (fl (25 / 100), fl (5 / 10), fl (25 / 100)))"

text \<open>\<open>round((daily_calories * share) / k)\<close> with an integer calorie total.\<close>

definition grams :: "int \<Rightarrow> rat \<Rightarrow> rat \<Rightarrow> int" where
  "grams daily_calories share k = py_round (fl (fl (fl (of_int daily_calories) * share) / k))"

definition calculate_macros :: "user_profile \<Rightarrow> int \<Rightarrow> py_error + macros" where
  "calculate_macros p daily_calories =
     (case macro_split (goals p) of
        Inl e \<Rightarrow> Inl e
      | Inr (pr, cb, ft) \<Rightarrow>
          Inr \<lparr>protein_g = grams daily_calories pr 4,
               carbs_g = grams daily_calories cb 4,
               fat_g = grams daily_calories ft 9,
               protein_pct = fl (pr * 100),
               carbs_pct = fl (cb * 100),
               fat_pct = fl (ft * 100)\<rparr>)"

section \<open>Meal plans\<close>

text \<open>A row of the food table, with the columns the recommender reads.\<close>

record food =
  label :: string
  food_weight :: rat
  food_calories :: rat
  food_protein :: rat
  carbohydrates :: rat
  fats :: rat

record meal =
  meal_type :: string
  name :: string
  calories :: int
  protein :: rat
  carbs :: rat
  fat :: rat
  servings :: rat
  serving_size :: string
  recipe_link :: string

record day_plan =
  meals :: "meal list"
  totalCalories :: int
  totalProtein :: rat
  totalCarbs :: rat
  totalFat :: rat

definition meal_distribution :: "(string \<times> rat) list" where
  "meal_distribution =
     [(''breakfast'', fl (25 / 100)),
      (''lunch'', fl (35 / 100)),
      (''dinner'', fl (30 / 100)),
      (''snack'', fl (10 / 100))]"

definition meat_keywords :: "string list" where
  "meat_keywords = [''beef'', ''chicken'', ''pork'', ''turkey'', ''meat'', ''fish'', ''salmon'']"

definition breakfast_keywords :: "string list" where
  "breakfast_keywords =
     [''pancakes'', ''waffles'', ''french_toast'', ''eggs'', ''omelette'', ''breakfast'']"

definition lunch_keywords :: "string list" where
  "lunch_keywords = [''sandwich'', ''salad'', ''soup'', ''wrap'', ''bowl'']"

definition dinner_keywords :: "string list" where
  "dinner_keywords = [''steak'', ''chicken'', ''fish'', ''salmon'', ''pasta'', ''rice'', ''bowl'']"

definition snack_keywords :: "string list" where
  "snack_keywords = [''fruit'', ''yogurt'', ''nuts'', ''hummus'', ''bar'']"

definition label_matches :: "string list \<Rightarrow> food \<Rightarrow> bool" where
  "label_matches keywords f = contains_any keywords (lower (label f))"

definition filter_by_meal_type :: "food list \<Rightarrow> string \<Rightarrow> food list" where
  "filter_by_meal_type foods_df mt =
     (if mt = ''breakfast'' then filter (label_matches breakfast_keywords) foods_df
      else if mt = ''lunch'' then filter (label_matches lunch_keywords) foods_df
      else if mt = ''dinner'' then filter (label_matches dinner_keywords) foods_df
      else if mt = ''snack'' then filter (label_matches snack_keywords) foods_df
      else foods_df)"

text \<open>
  \<open>DataFrame.sample(1).iloc[0]\<close>: one row of the frame, chosen by the random source;
  sampling an empty frame raises \<open>ValueError\<close>. The random source is a sequence of
  draws \<open>rng\<close> read at a position that advances by one with every sample.
\<close>

definition sample :: "(nat \<Rightarrow> nat) \<Rightarrow> nat \<Rightarrow> food list \<Rightarrow> py_error + food" where
  "sample rng k pool =
     (if pool = [] then Inl ValueError else Inr (pool ! (rng k mod length pool)))"

text \<open>
  One meal from the sampled row. \<open>fmt\<close> is Python's conversion of the row's weight to
  text inside the f-string. The numbers of a row are numpy scalars, as the columns of a
  frame hold them, so the products with \<open>servings\<close> are \<open>numpy.float64\<close> and
  \<open>round\<close> on them is numpy's. \<open>max(calories_per_serving, 1)\<close> is the row's number
  unless \<open>1\<close> is greater; then it is the Python integer \<open>1\<close>, \<open>servings\<close> is a
  Python float and \<open>round(servings, 2)\<close> is Python's.
\<close>

definition make_meal :: "(rat \<Rightarrow> string) \<Rightarrow> string \<Rightarrow> int \<Rightarrow> food \<Rightarrow> meal" where
  "make_meal fmt mt meal_calories f =
     (let calories_per_serving = food_calories f;
          servs = fl (fl (of_int meal_calories) / max calories_per_serving 1)
      in \<lparr>meal_type = mt,
           name = label f,
           calories = py_int (fl (calories_per_serving * servs)),
           protein = np_round 1 (fl (food_protein f * servs)),
           carbs = np_round 1 (fl (carbohydrates f * servs)),
           fat = np_round 1 (fl (fats f * servs)),
           servings = (if calories_per_serving < 1 then py_round_nd 2 servs
                       else np_round 2 servs),
           serving_size = fmt (food_weight f) @ ''g'',
           recipe_link = ''https://example.com/recipes/'' @ replace_space (lower (label f))\<rparr>)"

definition add_meal :: "day_plan \<Rightarrow> meal \<Rightarrow> day_plan" where
  "add_meal pl m =
     \<lparr>meals = meals pl @ [m],
      totalCalories = totalCalories pl + calories m,
      totalProtein = fl (totalProtein pl + protein m),
      totalCarbs = fl (totalCarbs pl + carbs m),
      totalFat = fl (totalFat pl + fat m)\<rparr>"

text \<open>\<open>meal_calories = int(total_calories * percentage)\<close>.\<close>

definition meal_target :: "int \<Rightarrow> rat \<Rightarrow> int" where
  "meal_target total_calories percentage = py_int (fl (fl (of_int total_calories) * percentage))"

text \<open>The loop over the meal distribution; \<open>k\<close> is the position in the random source.\<close>

fun day_meals ::
  "(rat \<Rightarrow> string) \<Rightarrow> food list \<Rightarrow> (nat \<Rightarrow> nat) \<Rightarrow> int \<Rightarrow> (string \<times> rat) list \<Rightarrow>
   day_plan \<Rightarrow> nat \<Rightarrow> py_error + day_plan \<times> nat" where
  "day_meals fmt filtered_foods rng total_calories [] pl k = Inr (pl, k)"
| "day_meals fmt filtered_foods rng total_calories ((mt, percentage) # rest) pl k =
     (let meal_calories = meal_target total_calories percentage;
          suitable = filter_by_meal_type filtered_foods mt;
          suitable_foods = (if suitable = [] then filtered_foods else suitable)
      in case sample rng k suitable_foods of
           Inl e \<Rightarrow> Inl e
         | Inr f \<Rightarrow>
             day_meals fmt filtered_foods rng total_calories rest
               (add_meal pl (make_meal fmt mt meal_calories f)) (Suc k))"

text \<open>
  The day's plan. The totals of protein, carbs and fat are sums of \<open>numpy.float64\<close>
  values, so the final \<open>round(total, 1)\<close> is numpy's as well.
\<close>

definition generate_day_plan ::
  "(rat \<Rightarrow> string) \<Rightarrow> food list \<Rightarrow> (nat \<Rightarrow> nat) \<Rightarrow> nat \<Rightarrow> int \<Rightarrow> macros \<Rightarrow> user_profile \<Rightarrow>
   py_error + day_plan \<times> nat" where
  "generate_day_plan fmt food_database rng k total_calories mcs p =
     (case (case dietary_preferences p of Absent \<Rightarrow> Inr [] | v \<Rightarrow> py_lower v) of
        Inl e \<Rightarrow> Inl e
      | Inr preferences \<Rightarrow>
          (let filtered_foods =
                 (if str_in ''vegetarian'' preferences
                  then filter (\<lambda>f. \<not> label_matches meat_keywords f) food_database
                  else food_database)
           in case day_meals fmt filtered_foods rng total_calories meal_distribution
                     \<lparr>meals = [], totalCalories = 0, totalProtein = 0, totalCarbs = 0,
                      totalFat = 0\<rparr> k of
                Inl e \<Rightarrow> Inl e
              | Inr (pl, k') \<Rightarrow>
                  Inr (pl\<lparr>totalProtein := np_round 1 (totalProtein pl),
                          totalCarbs := np_round 1 (totalCarbs pl),
                          totalFat := np_round 1 (totalFat pl)\<rparr>, k')))"

definition days_of_week :: "string list" where
  "days_of_week =
     [''monday'', ''tuesday'', ''wednesday'', ''thursday'', ''friday'', ''saturday'', ''sunday'']"

text \<open>
  The loop \<open>for i in range(days)\<close>. The plan is a dictionary keyed by the day name:
  storing under a key that is present replaces its value and keeps its position, storing
  under a new key appends, which is \<open>AList.update\<close> on the list of entries.
\<close>

fun plan_days ::
  "(rat \<Rightarrow> string) \<Rightarrow> food list \<Rightarrow> (nat \<Rightarrow> nat) \<Rightarrow> int \<Rightarrow> macros \<Rightarrow> user_profile \<Rightarrow>
   nat list \<Rightarrow> (string \<times> day_plan) list \<Rightarrow> nat \<Rightarrow> py_error + (string \<times> day_plan) list" where
  "plan_days fmt food_database rng daily_calories mcs p [] meal_plan k = Inr meal_plan"
| "plan_days fmt food_database rng daily_calories mcs p (i # rest) meal_plan k =
     (let day = days_of_week ! (i mod 7)
      in case generate_day_plan fmt food_database rng k daily_calories mcs p of
           Inl e \<Rightarrow> Inl e
         | Inr (d, k') \<Rightarrow>
             plan_days fmt food_database rng daily_calories mcs p rest
               (AList.update day d meal_plan) k')"

text \<open>
  \<open>generate_meal_plan\<close>: \<open>None\<close> when the food table is not loaded, and \<open>None\<close> again
  when anything inside the \<open>try\<close> block raises.
\<close>

definition generate_meal_plan ::
  "(rat \<Rightarrow> string) \<Rightarrow> food list option \<Rightarrow> (nat \<Rightarrow> nat) \<Rightarrow> user_profile \<Rightarrow> int \<Rightarrow>
   (string \<times> day_plan) list option" where
  "generate_meal_plan fmt food_database rng p days =
     (case food_database of
        None \<Rightarrow> None
      | Some foods \<Rightarrow>
          (case calculate_daily_calories p of
             Inl e \<Rightarrow> None
           | Inr daily_calories \<Rightarrow>
               (case calculate_macros p daily_calories of
                  Inl e \<Rightarrow> None
                | Inr mcs \<Rightarrow>
                    (case plan_days fmt foods rng daily_calories mcs p [0..<nat days] [] 0 of
                       Inl e \<Rightarrow> None
                     | Inr meal_plan \<Rightarrow> Some meal_plan))))"

text \<open>
  The route \<open>/meal-plan/generate\<close> of the backend builds its own week and has its own
  calorie shares: the branch on the meal type that sets \<open>meal_calories\<close>.
\<close>

definition route_meal_calories :: "int \<Rightarrow> string \<Rightarrow> int" where
  "route_meal_calories daily_calories mt =
     (if mt = ''breakfast'' then py_int (fl (fl (of_int daily_calories) * fl (25 / 100)))
      else if mt = ''lunch'' then py_int (fl (fl (of_int daily_calories) * fl (3 / 10)))
      else if mt = ''dinner'' then py_int (fl (fl (of_int daily_calories) * fl (3 / 10)))
      else py_int (fl (fl (of_int daily_calories) * fl (15 / 100))))"

section \<open>Nutrition insights\<close>

text \<open>
  A food log row. \<open>logged_at\<close> is a timestamp: the ordinal of its calendar day and the
  time within the day; \<open>.date()\<close> keeps the day.
\<close>

record food_log =
  log_calories :: rat
  log_protein :: rat
  log_carbs :: rat
  log_fat :: rat
  fiber :: "rat option"
  sugar :: "rat option"
  logged_at :: "int \<times> nat"

record insight =
  category :: string
  message :: string
  recommendation :: string
  priority :: string

record ratios =
  protein_percentage :: rat
  carbs_percentage :: rat
  fat_percentage :: rat

record averages =
  avg_calories :: rat
  avg_protein :: rat
  avg_carbs :: rat
  avg_fat :: rat
  avg_fiber :: rat
  avg_sugar :: rat

text \<open>
  The two dictionaries \<open>get_nutrition_insights\<close> returns: the short one for an empty
  log list, with the keys \<open>message\<close> and \<open>insights\<close>, and the full report.
\<close>

datatype insight_report =
  NoData string "insight list"
| Report ratios averages "insight list" "string list"

fun report_insights :: "insight_report \<Rightarrow> insight list" where
  "report_insights (NoData msg ins) = ins"
| "report_insights (Report r a ins recs) = ins"

fun report_ratios :: "insight_report \<Rightarrow> ratios option" where
  "report_ratios (NoData msg ins) = None"
| "report_ratios (Report r a ins recs) = Some r"

fun report_averages :: "insight_report \<Rightarrow> averages option" where
  "report_averages (NoData msg ins) = None"
| "report_averages (Report r a ins recs) = Some a"

fun report_recommendations :: "insight_report \<Rightarrow> string list option" where
  "report_recommendations (NoData msg ins) = None"
| "report_recommendations (Report r a ins recs) = Some recs"

text \<open>
  \<open>sum(...)\<close> over floats: starts from 0 and adds from the left, rounding every partial
  sum. (Python 3.12 and later carry a correction term for the rounding errors of the
  partial sums; both give the same total whenever the partial sums are exact, as for a
  list of one element.)
\<close>

definition py_sum :: "rat list \<Rightarrow> rat" where
  "py_sum xs = foldl (\<lambda>a x. fl (a + x)) 0 xs"

text \<open>\<open>v or 0\<close> for an optional float.\<close>

definition or_zero :: "rat option \<Rightarrow> rat" where
  "or_zero v = (case v of None \<Rightarrow> 0 | Some x \<Rightarrow> x)"

text \<open>\<open>str(n)\<close> of an integer, as the f-strings of the calorie messages print it.\<close>

definition digit_char :: "int \<Rightarrow> char" where
  "digit_char d = char_of (48 + nat d)"

function str_nat :: "int \<Rightarrow> string" where
  "str_nat n = (if n < 10 then [digit_char n] else str_nat (n div 10) @ [digit_char (n mod 10)])"
  by pat_completeness auto
termination
  by (relation "measure nat") auto

declare str_nat.simps [simp del]

definition str_int :: "int \<Rightarrow> string" where
  "str_int n = (if n < 0 then CHR ''-'' # str_nat (- n) else str_nat n)"

definition protein_insights :: "rat \<Rightarrow> insight list" where
  "protein_insights protein_pct' =
     (if protein_pct' < 10 then
        [\<lparr>category = ''protein'',
          message = ''Your protein intake is very low. Protein is essential for muscle maintenance and recovery.'',
          recommendation = ''Try to include more lean protein sources like chicken, fish, tofu, or legumes.'',
          priority = ''high''\<rparr>]
      else if protein_pct' < 15 then
        [\<lparr>category = ''protein'',
          message = ''Your protein intake could be higher for optimal health.'',
          recommendation = ''Consider adding more protein-rich foods to your meals.'',
          priority = ''medium''\<rparr>]
      else if 35 < protein_pct' then
        [\<lparr>category = ''protein'',
          message = ''Your protein intake is quite high. While protein is important, balance is key.'',
          recommendation = ''Consider diversifying your diet with more fruits, vegetables, and whole grains.'',
          priority = ''medium''\<rparr>]
      else [])"

definition carbs_insights :: "rat \<Rightarrow> insight list" where
  "carbs_insights carbs_pct' =
     (if carbs_pct' < 30 then
        [\<lparr>category = ''carbs'',
          message = ''Your carbohydrate intake is low. Carbs are your body'' @ [CHR 0x27] @ ''s main energy source.'',
          recommendation = ''Include more complex carbohydrates like whole grains, fruits, and vegetables.'',
          priority = ''medium''\<rparr>]
      else if 65 < carbs_pct' then
        [\<lparr>category = ''carbs'',
          message = ''Your diet is very high in carbohydrates.'',
          recommendation = ''Try to balance your meals with more protein and healthy fats.'',
          priority = ''medium''\<rparr>]
      else [])"

definition fat_insights :: "rat \<Rightarrow> insight list" where
  "fat_insights fat_pct' =
     (if fat_pct' < 15 then
        [\<lparr>category = ''fat'',
          message = ''Your fat intake is low. Healthy fats are essential for hormone production and nutrient absorption.'',
          recommendation = ''Include sources of healthy fats like avocados, nuts, seeds, and olive oil.'',
          priority = ''medium''\<rparr>]
      else if 40 < fat_pct' then
        [\<lparr>category = ''fat'',
          message = ''Your fat intake is high. While healthy fats are important, they'' @ [CHR 0x27] @ ''re also calorie-dense.'',
          recommendation = ''Focus on healthy fat sources and consider moderating overall fat intake.'',
          priority = ''medium''\<rparr>]
      else [])"

definition fiber_insights :: "rat \<Rightarrow> insight list" where
  "fiber_insights avg_fiber' =
     (if avg_fiber' < 25 then
        [\<lparr>category = ''fiber'',
          message = ''Your fiber intake appears to be below recommendations. Fiber is important for digestive health.'',
          recommendation = ''Add more fruits, vegetables, legumes, and whole grains to increase your fiber intake.'',
          priority = ''medium''\<rparr>]
      else [])"

definition sugar_insights :: "rat \<Rightarrow> insight list" where
  "sugar_insights avg_sugar' =
     (if 50 < avg_sugar' then
        [\<lparr>category = ''sugar'',
          message = ''Your sugar intake appears to be high. Excessive sugar consumption is linked to various health issues.'',
          recommendation = ''Try to reduce added sugars in your diet by limiting sweetened beverages and processed foods.'',
          priority = ''high''\<rparr>]
      else [])"

definition calorie_insights :: "user_profile \<Rightarrow> rat \<Rightarrow> py_error + insight list" where
  "calorie_insights p avg_calories' =
     (if present (weight p) \<and> present (height p) \<and> present (age p) \<and> present (gender p) then
        (case calculate_daily_calories p of
           Inl e \<Rightarrow> Inl e
         | Inr estimated_calories \<Rightarrow>
             if avg_calories' < fl (fl (of_int estimated_calories) * fl (7 / 10)) then
               Inr [\<lparr>category = ''calories'',
                     message = ''Your average calorie intake ('' @ str_int (py_int avg_calories')
                       @ '') is much lower than your estimated needs (''
                       @ str_int estimated_calories @ '').'',
                     recommendation = ''Consider eating more nutrient-dense foods to meet your energy requirements.'',
                     priority = ''high''\<rparr>]
             else if fl (fl (of_int estimated_calories) * fl (13 / 10)) < avg_calories' then
               Inr [\<lparr>category = ''calories'',
                     message = ''Your average calorie intake ('' @ str_int (py_int avg_calories')
                       @ '') is higher than your estimated needs (''
                       @ str_int estimated_calories @ '').'',
                     recommendation = ''Consider monitoring portion sizes if weight maintenance is your goal.'',
                     priority = ''medium''\<rparr>]
             else Inr [])
      else Inr [])"

text \<open>\<open>any(word in insight["message"] and "high" in insight["message"] for insight in insights)\<close>.\<close>

definition mentions_high :: "string \<Rightarrow> insight list \<Rightarrow> bool" where
  "mentions_high word ins =
     list_ex (\<lambda>i. str_in word (message i) \<and> str_in ''high'' (message i)) ins"

definition protein_recommendations :: "user_profile \<Rightarrow> py_error + string list" where
  "protein_recommendations p =
     (case (case dietary_preferences p of Absent \<Rightarrow> Inr [] | v \<Rightarrow> py_lower v) of
        Inl e \<Rightarrow> Inl e
      | Inr prefs \<Rightarrow>
          if str_in ''vegetarian'' prefs then
            Inr [''Greek yogurt (high protein dairy)'',
                 ''Lentils (plant-based protein)'',
                 ''Tofu (complete plant protein)'',
                 ''Chickpeas (protein and fiber)'',
                 ''Quinoa (complete protein grain)'']
          else
            Inr [''Chicken breast (lean protein)'',
                 ''Greek yogurt (high protein dairy)'',
                 ''Eggs (complete protein)'',
                 ''Tuna (lean protein source)'',
                 ''Turkey (lean meat protein)''])"

definition reduce_carbs :: "string list" where
  "reduce_carbs =
     [''Replace refined grains with vegetables'',
      ''Choose lower-carb fruits like berries'',
      ''Include more leafy greens'']"

definition increase_carbs :: "string list" where
  "increase_carbs =
     [''Oatmeal (complex carbs with fiber)'',
      ''Sweet potatoes (nutrient-dense carb source)'',
      ''Brown rice (whole grain carb source)'',
      ''Bananas (carbs with potassium)'',
      ''Whole grain bread (complex carbs)'']"

definition healthier_fats :: "string list" where
  "healthier_fats =
     [''Choose lean protein sources'',
      ''Use olive oil instead of butter'',
      ''Include fatty fish like salmon'']"

definition increase_fats :: "string list" where
  "increase_fats =
     [''Avocados (healthy monounsaturated fats)'',
      ''Nuts (healthy fats and protein)'',
      ''Olive oil (healthy cooking oil)'',
      ''Chia seeds (omega-3 fatty acids)'',
      ''Fatty fish like salmon (omega-3 sources)'']"

definition fiber_recommendations :: "string list" where
  "fiber_recommendations =
     [''Chia seeds (high in soluble fiber)'',
      ''Berries (fruit with high fiber)'',
      ''Lentils (protein and fiber)'',
      ''Broccoli (vegetable with fiber)'',
      ''Oats (whole grain with beta-glucan fiber)'']"

definition sugar_recommendations :: "string list" where
  "sugar_recommendations =
     [''Replace sugary drinks with water or herbal tea'',
      ''Choose whole fruits instead of fruit juices'',
      ''Read labels for hidden added sugars'',
      ''Try cinnamon as a natural sweetener'',
      ''Gradually reduce sugar in coffee/tea'']"

definition general_recommendations :: "string list" where
  "general_recommendations =
     [''Eat a variety of colorful fruits and vegetables'',
      ''Choose whole grains over refined grains'',
      ''Include lean proteins in your meals'',
      ''Stay hydrated by drinking water throughout the day'',
      ''Limit highly processed foods and added sugars'']"

definition generate_food_recommendations ::
  "insight list \<Rightarrow> user_profile \<Rightarrow> py_error + string list" where
  "generate_food_recommendations ins p =
     (let categories_to_improve =
            map category (filter (\<lambda>i. priority i \<in> set [''high'', ''medium'']) ins)
      in case (if ''protein'' \<in> set categories_to_improve then protein_recommendations p
               else Inr []) of
           Inl e \<Rightarrow> Inl e
         | Inr r1 \<Rightarrow>
             (let r2 = (if ''carbs'' \<in> set categories_to_improve
                        then (if mentions_high ''carbs'' ins then reduce_carbs else increase_carbs)
                        else []);
                  r3 = (if ''fat'' \<in> set categories_to_improve
                        then (if mentions_high ''fat'' ins then healthier_fats else increase_fats)
                        else []);
                  r4 = (if ''fiber'' \<in> set categories_to_improve then fiber_recommendations
                        else []);
                  r5 = (if ''sugar'' \<in> set categories_to_improve then sugar_recommendations
                        else []);
                  recommendations = r1 @ r2 @ r3 @ r4 @ r5
              in Inr (take 10 (if recommendations = [] then general_recommendations
                               else recommendations))))"

text \<open>The six sums over the logs: calories, protein, carbs, fat, fiber, sugar.\<close>

definition log_totals :: "food_log list \<Rightarrow> rat \<times> rat \<times> rat \<times> rat \<times> rat \<times> rat" where
  "log_totals user_food_logs =
     (py_sum (map log_calories user_food_logs),
      py_sum (map log_protein user_food_logs),
      py_sum (map log_carbs user_food_logs),
      py_sum (map log_fat user_food_logs),
      py_sum (map (\<lambda>l. or_zero (fiber l)) user_food_logs),
      py_sum (map (\<lambda>l. or_zero (sugar l)) user_food_logs))"

text \<open>\<open>max(1, len(set(log.logged_at.date() for log in user_food_logs)))\<close>.\<close>

definition log_days :: "food_log list \<Rightarrow> nat" where
  "log_days user_food_logs = max 1 (length (remdups (map (\<lambda>l. fst (logged_at l)) user_food_logs)))"

text \<open>The calorie distribution: the percentages of protein, carbs and fat.\<close>

definition calorie_distribution :: "rat \<Rightarrow> rat \<Rightarrow> rat \<Rightarrow> rat \<times> rat \<times> rat" where
  "calorie_distribution total_protein total_carbs total_fat =
     (let calories_from_protein = fl (total_protein * 4);
          calories_from_carbs = fl (total_carbs * 4);
          calories_from_fat = fl (total_fat * 9);
          total_calorie_sum =
            fl (fl (calories_from_protein + calories_from_carbs) + calories_from_fat)
      in if 0 < total_calorie_sum
         then (fl (fl (calories_from_protein / total_calorie_sum) * 100),
               fl (fl (calories_from_carbs / total_calorie_sum) * 100),
               fl (fl (calories_from_fat / total_calorie_sum) * 100))
         else (0, 0, 0))"

definition get_nutrition_insights ::
  "food_log list \<Rightarrow> user_profile \<Rightarrow> py_error + insight_report" where
  "get_nutrition_insights user_food_logs p =
     (if user_food_logs = [] then
        Inr (NoData ''Not enough data for insights. Log more meals for personalized nutrition insights.'' [])
      else
        (case log_totals user_food_logs of
           (total_calories, total_protein, total_carbs, total_fat, total_fiber, total_sugar) \<Rightarrow>
        (let days = of_nat (log_days user_food_logs);
             av_calories = fl (total_calories / days);
             av_protein = fl (total_protein / days);
             av_carbs = fl (total_carbs / days);
             av_fat = fl (total_fat / days);
             av_fiber = fl (total_fiber / days);
             av_sugar = fl (total_sugar / days)
         in case calorie_distribution total_protein total_carbs total_fat of
              (pp, cp, fp) \<Rightarrow>
            (case calorie_insights p av_calories of
              Inl e \<Rightarrow> Inl e
            | Inr ci \<Rightarrow>
                (let ins = protein_insights pp @ carbs_insights cp @ fat_insights fp
                           @ fiber_insights av_fiber @ sugar_insights av_sugar @ ci
                 in case generate_food_recommendations ins p of
                      Inl e \<Rightarrow> Inl e
                    | Inr recs \<Rightarrow>
                        Inr (Report
                               \<lparr>protein_percentage = py_round_nd 1 pp,
                                carbs_percentage = py_round_nd 1 cp,
                                fat_percentage = py_round_nd 1 fp\<rparr>
                               \<lparr>avg_calories = py_round_nd 1 av_calories,
                                avg_protein = py_round_nd 1 av_protein,
                                avg_carbs = py_round_nd 1 av_carbs,
                                avg_fat = py_round_nd 1 av_fat,
                                avg_fiber = py_round_nd 1 av_fiber,
                                avg_sugar = py_round_nd 1 av_sugar\<rparr>
                               ins recs))))))"

section \<open>Sample inputs\<close>

text \<open>The profile of the worked example: 70 kg, 175 cm, 30 years, male, moderately active.\<close>

definition sample_profile :: user_profile where
  "sample_profile =
     \<lparr>weight = Val 70, height = Val 175, age = Val 30, gender = Val ''male'',
      activity_level = Val ''moderately_active'', goals = Val [],
      dietary_preferences = Absent\<rparr>"

text \<open>
  The same user as the routes of the backend pass it: every key of the dictionary is
  present, a column that is not set holds \<open>None\<close>, and the preferences are the empty
  text or the word Vegetarian.
\<close>

definition complete_profile :: user_profile where
  "complete_profile = sample_profile\<lparr>dietary_preferences := Val []\<rparr>"

definition vegetarian_profile :: user_profile where
  "vegetarian_profile = sample_profile\<lparr>dietary_preferences := Val ''Vegetarian''\<rparr>"


text \<open>A food table of three rows, each weighing 100 g, and a random source.\<close>

definition chicken_salad :: food where
  "chicken_salad =
     \<lparr>label = ''Grilled Chicken Salad'', food_weight = 100, food_calories = 150,
      food_protein = 20, carbohydrates = 5, fats = 6\<rparr>"

definition veggie_bowl :: food where
  "veggie_bowl =
     \<lparr>label = ''Veggie Rice Bowl'', food_weight = 100, food_calories = 250,
      food_protein = 8, carbohydrates = 40, fats = 6\<rparr>"

definition pancakes :: food where
  "pancakes =
     \<lparr>label = ''Pancakes'', food_weight = 100, food_calories = 200,
      food_protein = 5, carbohydrates = 30, fats = 7\<rparr>"

definition small_catalog :: "food list" where
  "small_catalog = [chicken_salad, veggie_bowl, pancakes]"

definition fmt0 :: "rat \<Rightarrow> string" where
  "fmt0 x = ''100''"

definition rng0 :: "nat \<Rightarrow> nat" where
  "rng0 k = k"

text \<open>
  One day of logs with 80 g protein, 340 g carbs and 40 g fat: 15.7, 66.7 and 17.6
  percent of the calories, so that the only rule that fires is the one for too many
  carbs.
\<close>

definition high_carb_logs :: "food_log list" where
  "high_carb_logs =
     [\<lparr>log_calories = 2040, log_protein = 80, log_carbs = 340, log_fat = 40,
       fiber = Some 30, sugar = Some 20, logged_at = (739000, 0)\<rparr>]"

section \<open>Properties\<close>

subsection \<open>Empty log list\<close>

text \<open>
  C2 (as stated): for an empty log list the report holds exactly two insights, a general
  one and a hydration one, zero percentages, zero averages and the general
  recommendations. The recommender does not do that: its report has no insight at all.
\<close>

theorem C2_empty_logs_counterexample:
  "\<not> (case get_nutrition_insights [] sample_profile of
         Inl e \<Rightarrow> False
       | Inr r \<Rightarrow> length (report_insights r) = 2)"
  by (simp add: get_nutrition_insights_def)

text \<open>
  C2 (amended): for an empty log list and any profile the recommender returns the short
  dictionary: the not-enough-data message and an empty insight list, with no
  percentages, no averages and no recommendation list.
\<close>

theorem C2_empty_logs_short_report:
  "get_nutrition_insights [] p =
     Inr (NoData ''Not enough data for insights. Log more meals for personalized nutrition insights.'' [])
   \<and> map_sum id report_ratios (get_nutrition_insights [] p) = Inr None
   \<and> map_sum id report_averages (get_nutrition_insights [] p) = Inr None
   \<and> map_sum id report_recommendations (get_nutrition_insights [] p) = Inr None"
  by (simp add: get_nutrition_insights_def)

subsection \<open>The worked example\<close>

text \<open>
  C6 (as stated): the sample profile gets 2660 kcal, and 2660 kcal split by default give
  166 g protein, 333 g carbs and 74 g fat. The code returns another calorie total.
\<close>

theorem C6_example_counterexample:
  "calculate_daily_calories sample_profile \<noteq> Inr 2660"
  by code_simp

text \<open>
  C6 (amended): the base of the sample profile is 1648.75, the calorie total is 2555
  (1648.75 times 1.55 is 2555.5625, truncated), and the default split of 2660 kcal gives
  166 g protein, 332 g carbs (332.5 rounds to the even neighbour) and 74 g fat.
\<close>

theorem C6_example_values:
  "mifflin 70 175 30 ''male'' = 6595 / 4
   \<and> calculate_daily_calories sample_profile = Inr 2555
   \<and> map_sum id (\<lambda>m. (protein_g m, carbs_g m, fat_g m)) (calculate_macros sample_profile 2660)
       = Inr (166, 332, 74)"
  by code_simp

subsection \<open>The guard on the five keys\<close>







subsection \<open>Rounding to the nearest integer\<close>

lemma rne_lower: "x - 1 / 2 \<le> of_int (rne x)"
proof -
  define f where "f = \<lfloor>x\<rfloor>"
  have "of_int f \<le> x" "x < of_int f + 1" unfolding f_def by linarith+
  then show ?thesis
    unfolding rne_def Let_def f_def[symmetric] by (auto split: if_splits)
qed

lemma rne_upper: "of_int (rne x) \<le> x + 1 / 2"
proof -
  define f where "f = \<lfloor>x\<rfloor>"
  have "of_int f \<le> x" "x < of_int f + 1" unfolding f_def by linarith+
  then show ?thesis
    unfolding rne_def Let_def f_def[symmetric] by (auto split: if_splits)
qed





subsection \<open>The binary exponent\<close>

lemma bit_length_bounds:
  "0 < n \<Longrightarrow> 1 \<le> bit_length n \<and> 2 ^ nat (bit_length n - 1) \<le> n \<and> n < 2 ^ nat (bit_length n)"
proof (induction n rule: bit_length.induct)
  case (1 n)
  show ?case
  proof (cases "n = 1")
    case True
    have "bit_length 0 = 0" by (simp add: bit_length.simps)
    then have "bit_length 1 = 1" by (subst bit_length.simps) simp
    with True show ?thesis by simp
  next
    case False
    with 1(2) have m: "0 < n div 2" by simp
    from 1(2) have nz: "\<not> n \<le> 0" by simp
    from 1(1)[OF nz m] have
      b: "1 \<le> bit_length (n div 2)" and
      lo: "2 ^ nat (bit_length (n div 2) - 1) \<le> n div 2" and
      hi: "n div 2 < 2 ^ nat (bit_length (n div 2))"
      by simp_all
    have bl: "bit_length n = 1 + bit_length (n div 2)"
      using nz by (subst bit_length.simps) simp
    have e: "nat (bit_length (n div 2)) = Suc (nat (bit_length (n div 2) - 1))"
      using b by simp
    have "2 ^ nat (bit_length n - 1) \<le> n"
    proof -
      have "(2::int) ^ nat (bit_length n - 1) = 2 * 2 ^ nat (bit_length (n div 2) - 1)"
        using bl e by simp
      also have "\<dots> \<le> 2 * (n div 2)" using lo by simp
      also have "\<dots> \<le> n" by simp
      finally show ?thesis .
    qed
    moreover have "n < 2 ^ nat (bit_length n)"
    proof -
      have "n < 2 * (n div 2 + 1)" by simp
      also have "\<dots> \<le> 2 * 2 ^ nat (bit_length (n div 2))" using hi by simp
      also have "\<dots> = 2 ^ nat (bit_length n)"
        using bl b by (simp add: nat_add_distrib)
      finally show ?thesis .
    qed
    moreover have "1 \<le> bit_length n" using bl b by simp
    ultimately show ?thesis by simp
  qed
qed

lemma expo_bounds:
  assumes "x \<noteq> 0"
  shows "2 powi (expo x) \<le> \<bar>x\<bar> \<and> \<bar>x\<bar> < 2 powi (expo x + 1)"
proof (cases "1 \<le> \<bar>x\<bar>")
  case True
  define n where "n = \<lfloor>\<bar>x\<bar>\<rfloor>"
  have n: "of_int n \<le> \<bar>x\<bar>" "\<bar>x\<bar> < of_int n + 1" unfolding n_def by linarith+
  from True have "0 < n" unfolding n_def by simp
  from bit_length_bounds[OF this] have
    b: "1 \<le> bit_length n" and
    lo: "2 ^ nat (bit_length n - 1) \<le> n" and
    hi: "n < 2 ^ nat (bit_length n)"
    by simp_all
  have e: "expo x = bit_length n - 1" using True by (simp add: expo_def n_def)
  have "(2::rat) powi (expo x) = of_int (2 ^ nat (bit_length n - 1))"
    using b e by (simp add: power_int_nonneg_exp)
  also have "\<dots> \<le> of_int n" using lo by (simp only: of_int_le_iff)
  finally have 1: "2 powi (expo x) \<le> \<bar>x\<bar>" using n(1) by linarith
  from hi have "n + 1 \<le> 2 ^ nat (bit_length n)" by simp
  then have "(of_int (n + 1) :: rat) \<le> of_int (2 ^ nat (bit_length n))"
    by (simp only: of_int_le_iff)
  also have "\<dots> = 2 powi (expo x + 1)"
    using b e by (simp add: power_int_nonneg_exp)
  finally have "\<bar>x\<bar> < 2 powi (expo x + 1)" using n(2) by simp
  with 1 show ?thesis by simp
next
  case False
  define y where "y = 1 / \<bar>x\<bar>"
  define m where "m = \<lceil>y\<rceil> - 1"
  from False assms have x: "0 < \<bar>x\<bar>" "\<bar>x\<bar> < 1" by simp_all
  then have y1: "1 < y" unfolding y_def by simp
  have m: "of_int m < y" "y \<le> of_int m + 1" unfolding m_def by linarith+
  from y1 m(2) have "0 < (of_int m :: rat)" by linarith
  then have "0 < m" by simp
  from bit_length_bounds[OF this] have
    b: "1 \<le> bit_length m" and
    lo: "2 ^ nat (bit_length m - 1) \<le> m" and
    hi: "m < 2 ^ nat (bit_length m)"
    by simp_all
  have e: "expo x = - bit_length m" using False by (simp add: expo_def m_def y_def)
  have xy: "\<bar>x\<bar> = 1 / y" unfolding y_def by simp
  have y0: "0 < y" using y1 by simp
  from hi have "m + 1 \<le> 2 ^ nat (bit_length m)" by simp
  then have "(of_int (m + 1) :: rat) \<le> of_int (2 ^ nat (bit_length m))"
    by (simp only: of_int_le_iff)
  with m(2) have "y \<le> 2 ^ nat (bit_length m)" by simp
  then have "1 / (2 ^ nat (bit_length m)) \<le> 1 / y"
    using y0 by (simp add: frac_le)
  moreover have "(2::rat) powi (expo x) = 1 / 2 ^ nat (bit_length m)"
    using b e by (simp add: power_int_minus_divide power_int_nonneg_exp)
  ultimately have 1: "2 powi (expo x) \<le> \<bar>x\<bar>" using xy by simp
  have "(of_int (2 ^ nat (bit_length m - 1)) :: rat) \<le> of_int m"
    using lo by (simp only: of_int_le_iff)
  then have "(2::rat) ^ nat (bit_length m - 1) \<le> of_int m" by simp
  with m(1) have "2 ^ nat (bit_length m - 1) < y" by linarith
  then have "1 / y < 1 / (2 ^ nat (bit_length m - 1))"
    by (simp add: frac_less2)
  moreover have "(2::rat) powi (expo x + 1) = 1 / 2 ^ nat (bit_length m - 1)"
  proof -
    have "expo x + 1 = - (bit_length m - 1)" using e by simp
    then show ?thesis using b
      by (simp only: power_int_minus_divide) (simp add: power_int_nonneg_exp)
  qed
  ultimately have "\<bar>x\<bar> < 2 powi (expo x + 1)" using xy by simp
  with 1 show ?thesis by simp
qed

subsection \<open>Rounding to a double\<close>


text \<open>The scaled significand of a positive number lies between \<open>2 ^ 52\<close> and \<open>2 ^ 53\<close>.\<close>

lemma fl_pos_parts:
  assumes "0 < x"
  shows "\<exists>p t. 0 < p \<and> x = t * p \<and> fl x = of_int (rne t) * p
     \<and> p = 2 powi (expo x - 52) \<and> t = x / p
     \<and> 2 powi (expo x) = 2 ^ 52 * p \<and> 2 powi (expo x + 1) = 2 ^ 53 * p
     \<and> 2 ^ 52 \<le> t \<and> t < 2 ^ 53"
proof -
  define p :: rat where "p = 2 powi (expo x - 52)"
  define t where "t = x / p"
  have p: "0 < p" unfolding p_def by simp
  have x: "x = t * p" unfolding t_def using p by simp
  have f: "fl x = of_int (rne t) * p"
    using assms by (simp add: fl_def Let_def p_def t_def)
  have "expo x = 52 + (expo x - 52)" by simp
  then have "(2::rat) powi (expo x) = 2 powi 52 * 2 powi (expo x - 52)"
    by (metis power_int_add zero_neq_numeral)
  then have e1: "(2::rat) powi (expo x) = 2 ^ 52 * p" unfolding p_def by simp
  have "expo x + 1 = 53 + (expo x - 52)" by simp
  then have "(2::rat) powi (expo x + 1) = 2 powi 53 * 2 powi (expo x - 52)"
    by (metis power_int_add zero_neq_numeral)
  then have e2: "(2::rat) powi (expo x + 1) = 2 ^ 53 * p" unfolding p_def by simp
  from expo_bounds[of x] assms have "2 powi (expo x) \<le> x" "x < 2 powi (expo x + 1)" by simp_all
  with e1 e2 x have "2 ^ 52 * p \<le> t * p" "t * p < 2 ^ 53 * p" by simp_all
  with p have "2 ^ 52 \<le> t" "t < 2 ^ 53" by simp_all
  with p x f e1 e2 p_def t_def show ?thesis by blast
qed

lemma fl_error:
  assumes "0 < x"
  shows "\<bar>fl x - x\<bar> \<le> x / 2 ^ 53"
proof -
  from fl_pos_parts[OF assms] obtain p t where
    p: "0 < p" and x: "x = t * p" and f: "fl x = of_int (rne t) * p" and t: "2 ^ 52 \<le> t"
    by blast
  have "fl x - x = (of_int (rne t) - t) * p" using x f by (simp add: algebra_simps)
  then have "\<bar>fl x - x\<bar> = \<bar>of_int (rne t) - t\<bar> * p" using p by (simp add: abs_mult)
  also have "\<dots> \<le> (1 / 2) * p"
  proof -
    have "\<bar>of_int (rne t) - t\<bar> \<le> 1 / 2"
      using rne_lower[of t] rne_upper[of t] by linarith
    then show ?thesis using p by (intro mult_right_mono) auto
  qed
  also have "\<dots> \<le> (t / 2 ^ 53) * p"
    using t p by (intro mult_right_mono) auto
  also have "\<dots> = x / 2 ^ 53" using x by simp
  finally show ?thesis .
qed






subsection \<open>Calories and the activity level\<close>











subsection \<open>Macro percentages\<close>

lemma macro_split_cases:
  "macro_split gl = Inr t \<Longrightarrow>
   t = (fl (25 / 100), fl (5 / 10), fl (25 / 100))
   \<or> t = (fl (30 / 100), fl (40 / 100), fl (30 / 100))
   \<or> t = (fl (25 / 100), fl (55 / 100), fl (20 / 100))
   \<or> t = (fl (35 / 100), fl (45 / 100), fl (20 / 100))"
  by (auto simp: macro_split_def py_lower_def split: if_splits field.splits sum.splits)

text \<open>The doubles nearest to the decimal shares.\<close>

lemma share_values:
  "fl (25 / 100) = 1 / 4"
  "fl (5 / 10) = 1 / 2"
  "fl (30 / 100) = 5404319552844595 / 18014398509481984"
  "fl (40 / 100) = 3602879701896397 / 9007199254740992"
  "fl (55 / 100) = 2476979795053773 / 4503599627370496"
  "fl (20 / 100) = 3602879701896397 / 18014398509481984"
  "fl (35 / 100) = 3152519739159347 / 9007199254740992"
  "fl (45 / 100) = 8106479329266893 / 18014398509481984"
  by code_simp+

text \<open>The float sums of the percentages of the four splits, in the three orders.\<close>

lemma split_sums:
  "fl (fl (fl (fl (25 / 100) * 100) + fl (fl (5 / 10) * 100)) + fl (fl (25 / 100) * 100)) = 100"
  "fl (fl (fl (25 / 100) * 100) + fl (fl (fl (5 / 10) * 100) + fl (fl (25 / 100) * 100))) = 100"
  "fl (fl (fl (fl (25 / 100) * 100) + fl (fl (25 / 100) * 100)) + fl (fl (5 / 10) * 100)) = 100"
  "fl (fl (fl (fl (30 / 100) * 100) + fl (fl (40 / 100) * 100)) + fl (fl (30 / 100) * 100)) = 100"
  "fl (fl (fl (30 / 100) * 100) + fl (fl (fl (40 / 100) * 100) + fl (fl (30 / 100) * 100))) = 100"
  "fl (fl (fl (fl (30 / 100) * 100) + fl (fl (30 / 100) * 100)) + fl (fl (40 / 100) * 100)) = 100"
  "fl (fl (fl (fl (25 / 100) * 100) + fl (fl (55 / 100) * 100)) + fl (fl (20 / 100) * 100)) = 100"
  "fl (fl (fl (25 / 100) * 100) + fl (fl (fl (55 / 100) * 100) + fl (fl (20 / 100) * 100))) = 100"
  "fl (fl (fl (fl (25 / 100) * 100) + fl (fl (20 / 100) * 100)) + fl (fl (55 / 100) * 100)) = 100"
  "fl (fl (fl (fl (35 / 100) * 100) + fl (fl (45 / 100) * 100)) + fl (fl (20 / 100) * 100)) = 100"
  "fl (fl (fl (35 / 100) * 100) + fl (fl (fl (45 / 100) * 100) + fl (fl (20 / 100) * 100))) = 100"
  "fl (fl (fl (fl (35 / 100) * 100) + fl (fl (20 / 100) * 100)) + fl (fl (45 / 100) * 100)) = 100"
  by code_simp+

lemma macro_split_percentages:
  assumes "macro_split gl = Inr (pr, cb, ft)"
  shows "fl (fl (fl (pr * 100) + fl (cb * 100)) + fl (ft * 100)) = 100
   \<and> fl (fl (pr * 100) + fl (fl (cb * 100) + fl (ft * 100))) = 100
   \<and> fl (fl (fl (pr * 100) + fl (ft * 100)) + fl (cb * 100)) = 100"
proof -
  from macro_split_cases[OF assms] consider
      "pr = fl (25 / 100)" "cb = fl (5 / 10)" "ft = fl (25 / 100)"
    | "pr = fl (30 / 100)" "cb = fl (40 / 100)" "ft = fl (30 / 100)"
    | "pr = fl (25 / 100)" "cb = fl (55 / 100)" "ft = fl (20 / 100)"
    | "pr = fl (35 / 100)" "cb = fl (45 / 100)" "ft = fl (20 / 100)"
    by auto
  then show ?thesis
  proof cases
    case 1
    show ?thesis unfolding 1 by (intro conjI split_sums)
  next
    case 2
    show ?thesis unfolding 2 by (intro conjI split_sums)
  next
    case 3
    show ?thesis unfolding 3 by (intro conjI split_sums)
  next
    case 4
    show ?thesis unfolding 4 by (intro conjI split_sums)
  qed
qed

lemma macro_split_returns: "gl \<noteq> Null \<Longrightarrow> \<exists>pr cb ft. macro_split gl = Inr (pr, cb, ft)"
  by (cases gl) (auto simp: macro_split_def py_lower_def present_def)

text \<open>
  C3: for every profile with a goal text (or without the key \<open>goals\<close>) and every calorie
  total, \<open>_calculate_macros\<close> returns, and the three percentages it returns add up to
  exactly 100.0 in float arithmetic, in whichever order they are added. They are the
  chosen split times 100, whatever the calorie total and the gram values are.
\<close>

theorem C3_percentages_sum_to_100:
  assumes "goals p \<noteq> Null"
  shows "\<exists>m pr cb ft.
     calculate_macros p daily_calories = Inr m
     \<and> macro_split (goals p) = Inr (pr, cb, ft)
     \<and> protein_pct m = fl (pr * 100) \<and> carbs_pct m = fl (cb * 100) \<and> fat_pct m = fl (ft * 100)
     \<and> fl (fl (protein_pct m + carbs_pct m) + fat_pct m) = 100
     \<and> fl (protein_pct m + fl (carbs_pct m + fat_pct m)) = 100
     \<and> fl (fl (protein_pct m + fat_pct m) + carbs_pct m) = 100"
proof -
  from macro_split_returns[OF assms] obtain pr cb ft where
    s: "macro_split (goals p) = Inr (pr, cb, ft)" by blast
  let ?m = "\<lparr>protein_g = grams daily_calories pr 4, carbs_g = grams daily_calories cb 4,
             fat_g = grams daily_calories ft 9, protein_pct = fl (pr * 100),
             carbs_pct = fl (cb * 100), fat_pct = fl (ft * 100)\<rparr>"
  have m: "calculate_macros p daily_calories = Inr ?m"
    by (simp add: calculate_macros_def s)
  from macro_split_percentages[OF s] m s show ?thesis by simp
qed

lemma weight_gain_macros:
  "calculate_macros (complete_profile\<lparr>goals := Val ''Weight_Gain''\<rparr>) 2555 =
     Inr \<lparr>protein_g = 160, carbs_g = 351, fat_g = 57, protein_pct = 25,
          carbs_pct = 7740561859543041 / 140737488355328, fat_pct = 20\<rparr>"
  by code_simp

theorem C3_percentages_sum_to_100_witness:
  "goals (complete_profile\<lparr>goals := Val ''Weight_Gain''\<rparr>) \<noteq> Null
   \<and> calculate_macros (complete_profile\<lparr>goals := Val ''Weight_Gain''\<rparr>) 2555 =
     Inr \<lparr>protein_g = 160, carbs_g = 351, fat_g = 57, protein_pct = 25,
          carbs_pct = 7740561859543041 / 140737488355328, fat_pct = 20\<rparr>
   \<and> fl (fl (25 + 7740561859543041 / 140737488355328) + 20) = 100
   \<and> fl (25 + fl (7740561859543041 / 140737488355328 + 20)) = 100
   \<and> fl (fl (25 + 20) + 7740561859543041 / 140737488355328) = 100"
proof -
  have h: "goals (complete_profile\<lparr>goals := Val ''Weight_Gain''\<rparr>) \<noteq> Null" by simp
  from C3_percentages_sum_to_100 [OF h, of 2555] weight_gain_macros h
  show ?thesis by auto
qed

subsection \<open>Grams and calories\<close>

lemma macro_split_shares:
  assumes "macro_split gl = Inr (pr, cb, ft)"
  shows "0 < pr \<and> pr \<le> 1 \<and> 0 < cb \<and> cb \<le> 1 \<and> 0 < ft \<and> ft \<le> 1
     \<and> \<bar>pr + cb + ft - 1\<bar> \<le> 1 / 2 ^ 53"
  using macro_split_cases[OF assms] unfolding share_values by auto

text \<open>A rounded value is within the relative error \<open>2 ^ -53\<close> of the exact one.\<close>

lemma fl_between:
  assumes "0 < lo" "lo \<le> x" "x \<le> hi"
  shows "lo * (1 - 1 / 2 ^ 53) \<le> fl x \<and> fl x \<le> hi * (1 + 1 / 2 ^ 53)"
proof -
  from assms have x: "0 < x" by simp
  from fl_error[OF x] have "x - x / 2 ^ 53 \<le> fl x" "fl x \<le> x + x / 2 ^ 53"
    by linarith+
  then have 1: "x * (1 - 1 / 2 ^ 53) \<le> fl x" "fl x \<le> x * (1 + 1 / 2 ^ 53)"
    by (simp_all add: algebra_simps)
  have "lo * (1 - 1 / 2 ^ 53) \<le> x * (1 - 1 / 2 ^ 53)"
    using assms(2) by (intro mult_right_mono) auto
  moreover have "x * (1 + 1 / 2 ^ 53) \<le> hi * (1 + 1 / 2 ^ 53)"
    using assms(3) by (intro mult_right_mono) auto
  ultimately show ?thesis using 1 by linarith
qed

text \<open>
  The calories of a gram value: \<open>k\<close> times the grams differ from the share of the
  calories by half of \<open>k\<close> for the rounding to an integer, and by at most a thousandth
  for the three float operations when the total is at most \<open>10 ^ 12\<close>.
\<close>

lemma grams_error:
  assumes "0 < c" "c \<le> 10 ^ 12" "0 < s" "s \<le> 1" "0 < k"
  shows "\<bar>of_int (grams c s k) * k - of_int c * s\<bar> \<le> k / 2 + 1 / 1000"
proof -
  define u :: rat where "u = 1 / 2 ^ 53"
  define X :: rat where "X = of_int c * s"
  have c0: "(0::rat) < of_int c" using assms(1) by simp
  have cM: "(of_int c :: rat) \<le> 10 ^ 12"
  proof -
    have "(of_int c :: rat) \<le> of_int (10 ^ 12)" using assms(2) by (simp only: of_int_le_iff)
    then show ?thesis by simp
  qed
  have X0: "0 < X" unfolding X_def using c0 assms(3) by simp
  have XM: "X \<le> 10 ^ 12"
  proof -
    have "X \<le> of_int c * 1" unfolding X_def using c0 assms(4) by (intro mult_left_mono) auto
    with cM show ?thesis by simp
  qed
  have u1: "0 < 1 - u" "0 < 1 + u" unfolding u_def by simp_all
  \<comment> \<open>the conversion of the total\<close>
  define a where "a = fl (of_int c)"
  from fl_between[OF c0, of "of_int c" "of_int c"]
  have a: "of_int c * (1 - u) \<le> a" "a \<le> of_int c * (1 + u)"
    unfolding a_def u_def by simp_all
  \<comment> \<open>the product with the share\<close>
  define b where "b = fl (a * s)"
  have as: "X * (1 - u) \<le> a * s" "a * s \<le> X * (1 + u)"
  proof -
    have "of_int c * (1 - u) * s \<le> a * s" using a(1) assms(3) by (intro mult_right_mono) auto
    then show "X * (1 - u) \<le> a * s" unfolding X_def by (simp add: algebra_simps)
    have "a * s \<le> of_int c * (1 + u) * s" using a(2) assms(3) by (intro mult_right_mono) auto
    then show "a * s \<le> X * (1 + u)" unfolding X_def by (simp add: algebra_simps)
  qed
  have p1: "0 < X * (1 - u)" using X0 u1 by simp
  from fl_between[OF p1 as]
  have b: "X * (1 - u) * (1 - u) \<le> b" "b \<le> X * (1 + u) * (1 + u)"
    unfolding b_def u_def by simp_all
  \<comment> \<open>the quotient\<close>
  define q where "q = fl (b / k)"
  have bk: "X * (1 - u) * (1 - u) / k \<le> b / k" "b / k \<le> X * (1 + u) * (1 + u) / k"
    using b assms(5) by (simp_all add: divide_right_mono)
  have p2: "0 < X * (1 - u) * (1 - u) / k" using X0 u1 assms(5) by simp
  from fl_between[OF p2 bk]
  have q: "X * (1 - u) * (1 - u) / k * (1 - u) \<le> q" "q \<le> X * (1 + u) * (1 + u) / k * (1 + u)"
    unfolding q_def u_def by simp_all
  have qk: "X * ((1 - u) * (1 - u) * (1 - u)) \<le> q * k" "q * k \<le> X * ((1 + u) * (1 + u) * (1 + u))"
  proof -
    have "X * (1 - u) * (1 - u) / k * (1 - u) * k \<le> q * k"
      using q(1) assms(5) by (intro mult_right_mono) auto
    then show "X * ((1 - u) * (1 - u) * (1 - u)) \<le> q * k"
      using assms(5) by (simp add: mult.assoc mult.left_commute)
    have "q * k \<le> X * (1 + u) * (1 + u) / k * (1 + u) * k"
      using q(2) assms(5) by (intro mult_right_mono) auto
    then show "q * k \<le> X * ((1 + u) * (1 + u) * (1 + u))"
      using assms(5) by (simp add: mult.assoc mult.left_commute)
  qed
  have f: "1 - 4 * u \<le> (1 - u) * (1 - u) * (1 - u)" "(1 + u) * (1 + u) * (1 + u) \<le> 1 + 4 * u"
    unfolding u_def by simp_all
  have "X * (1 - 4 * u) \<le> X * ((1 - u) * (1 - u) * (1 - u))"
    using f(1) X0 by (intro mult_left_mono) auto
  moreover have "X * ((1 + u) * (1 + u) * (1 + u)) \<le> X * (1 + 4 * u)"
    using f(2) X0 by (intro mult_left_mono) auto
  ultimately have "X - X * (4 * u) \<le> q * k" "q * k \<le> X + X * (4 * u)"
    using qk by (simp_all add: algebra_simps)
  moreover have "X * (4 * u) \<le> 10 ^ 12 * (4 * u)"
    using XM unfolding u_def by (intro mult_right_mono) auto
  moreover have "10 ^ 12 * (4 * u) \<le> 1 / 1000" unfolding u_def by simp
  ultimately have e: "\<bar>q * k - X\<bar> \<le> 1 / 1000" by linarith
  have g: "grams c s k = rne q"
    by (simp add: grams_def py_round_def q_def b_def a_def)
  have "\<bar>of_int (rne q) - q\<bar> \<le> 1 / 2" using rne_lower[of q] rne_upper[of q] by linarith
  then have "\<bar>of_int (rne q) - q\<bar> * k \<le> 1 / 2 * k"
    using assms(5) by (intro mult_right_mono) auto
  moreover have "of_int (rne q) * k - q * k = (of_int (rne q) - q) * k"
    by (simp add: left_diff_distrib)
  then have "\<bar>of_int (rne q) * k - q * k\<bar> = \<bar>of_int (rne q) - q\<bar> * k"
    using assms(5) by (simp add: abs_mult)
  ultimately have "\<bar>of_int (rne q) * k - q * k\<bar> \<le> k / 2" by simp
  with e show ?thesis unfolding g X_def by linarith
qed

text \<open>
  C8 (as stated): for every calorie total above 0 and every split, the calories of the
  gram values differ from the total by at most 3 kcal. The default split of 2000 kcal
  gives 125 g, 250 g and 56 g, which make 2004 kcal; the weight-gain split of 2680 kcal
  gives 168 g, 369 g and 60 g, which make 2688 kcal; and for a total of \<open>10 ^ 18\<close> kcal
  the float operations lose 16 kcal.
\<close>

theorem C8_reconstruction_counterexample:
  "map_sum id (\<lambda>m. protein_g m * 4 + carbs_g m * 4 + fat_g m * 9 - 2000)
     (calculate_macros complete_profile 2000) = Inr 4
   \<and> map_sum id (\<lambda>m. protein_g m * 4 + carbs_g m * 4 + fat_g m * 9 - 2680)
       (calculate_macros (complete_profile\<lparr>goals := Val ''weight_gain''\<rparr>) 2680) = Inr 8
   \<and> map_sum id (\<lambda>m. protein_g m * 4 + carbs_g m * 4 + fat_g m * 9 - 10 ^ 18)
       (calculate_macros complete_profile (10 ^ 18)) = Inr (- 16)"
  by code_simp

text \<open>
  C8 (amended): for every calorie total from 1 to \<open>10 ^ 12\<close> and every profile with a
  goal text (or without the key \<open>goals\<close>), \<open>_calculate_macros\<close> returns, and the
  calories of its gram values, 4 per gram of protein and of carbs and 9 per gram of fat,
  differ from the total by at most 8 kcal.
\<close>

theorem C8_grams_reconstruct_calories:
  assumes "goals p \<noteq> Null" and "0 < c" and "c \<le> 10 ^ 12"
  shows "\<exists>m. calculate_macros p c = Inr m
     \<and> \<bar>protein_g m * 4 + carbs_g m * 4 + fat_g m * 9 - c\<bar> \<le> 8"
proof -
  from macro_split_returns[OF assms(1)] obtain pr cb ft where
    s: "macro_split (goals p) = Inr (pr, cb, ft)" by blast
  from macro_split_shares[OF s] have
    sh: "0 < pr" "pr \<le> 1" "0 < cb" "cb \<le> 1" "0 < ft" "ft \<le> 1" and
    sm: "\<bar>pr + cb + ft - 1\<bar> \<le> 1 / 2 ^ 53"
    by simp_all
  let ?P = "grams c pr 4" and ?Q = "grams c cb 4" and ?F = "grams c ft 9"
  have m: "calculate_macros p c =
        Inr \<lparr>protein_g = ?P, carbs_g = ?Q, fat_g = ?F, protein_pct = fl (pr * 100),
             carbs_pct = fl (cb * 100), fat_pct = fl (ft * 100)\<rparr>"
    by (simp add: calculate_macros_def s)
  have c0: "(0::rat) < of_int c" using assms(2) by simp
  have cM: "(of_int c :: rat) \<le> 10 ^ 12"
  proof -
    have "(of_int c :: rat) \<le> of_int (10 ^ 12)" using assms(3) by (simp only: of_int_le_iff)
    then show ?thesis by simp
  qed
  from grams_error[OF assms(2,3) sh(1,2), of 4]
  have 1: "\<bar>of_int ?P * 4 - of_int c * pr\<bar> \<le> 2 + 1 / 1000" by simp
  from grams_error[OF assms(2,3) sh(3,4), of 4]
  have 2: "\<bar>of_int ?Q * 4 - of_int c * cb\<bar> \<le> 2 + 1 / 1000" by simp
  from grams_error[OF assms(2,3) sh(5,6), of 9]
  have 3: "\<bar>of_int ?F * 9 - of_int c * ft\<bar> \<le> 9 / 2 + 1 / 1000" by simp
  have "\<bar>of_int c * (pr + cb + ft - 1)\<bar> = of_int c * \<bar>pr + cb + ft - 1\<bar>"
    using c0 by (simp add: abs_mult)
  also have "\<dots> \<le> 10 ^ 12 * (1 / 2 ^ 53)"
    using cM sm c0 by (intro mult_mono) auto
  also have "\<dots> \<le> 1 / 1000" by simp
  finally have 4: "\<bar>of_int c * pr + of_int c * cb + of_int c * ft - of_int c\<bar> \<le> 1 / 1000"
    by (simp add: algebra_simps)
  from 1 2 3 4
  have "\<bar>(of_int ?P :: rat) * 4 + of_int ?Q * 4 + of_int ?F * 9 - of_int c\<bar> < 9"
    by linarith
  then have "\<bar>(of_int (?P * 4 + ?Q * 4 + ?F * 9 - c) :: rat)\<bar> < of_int 9" by simp
  then have "\<bar>?P * 4 + ?Q * 4 + ?F * 9 - c\<bar> < 9"
    by (simp only: of_int_abs [symmetric] of_int_less_iff)
  then have "\<bar>?P * 4 + ?Q * 4 + ?F * 9 - c\<bar> \<le> 8" by simp
  with m show ?thesis by simp
qed

lemma weight_gain_grams:
  "calculate_macros (complete_profile\<lparr>goals := Val ''weight_gain''\<rparr>) 2680 =
     Inr \<lparr>protein_g = 168, carbs_g = 369, fat_g = 60, protein_pct = 25,
          carbs_pct = 7740561859543041 / 140737488355328, fat_pct = 20\<rparr>"
  by code_simp

theorem C8_grams_reconstruct_calories_witness:
  "goals (complete_profile\<lparr>goals := Val ''weight_gain''\<rparr>) \<noteq> Null
   \<and> (0::int) < 2680 \<and> (2680::int) \<le> 10 ^ 12
   \<and> calculate_macros (complete_profile\<lparr>goals := Val ''weight_gain''\<rparr>) 2680 =
     Inr \<lparr>protein_g = 168, carbs_g = 369, fat_g = 60, protein_pct = 25,
          carbs_pct = 7740561859543041 / 140737488355328, fat_pct = 20\<rparr>
   \<and> \<bar>168 * 4 + 369 * 4 + 60 * 9 - 2680 :: int\<bar> \<le> 8"
proof -
  have h: "goals (complete_profile\<lparr>goals := Val ''weight_gain''\<rparr>) \<noteq> Null" by simp
  have a: "(0::int) < 2680" "(2680::int) \<le> 10 ^ 12" by simp_all
  from C8_grams_reconstruct_calories [OF h a] weight_gain_grams
  have "\<bar>168 * 4 + 369 * 4 + 60 * 9 - 2680 :: int\<bar> \<le> 8" by simp
  with h a weight_gain_grams show ?thesis by simp
qed

subsection \<open>Recommendations for too many carbs\<close>

lemma high_carb_totals: "log_totals high_carb_logs = (2040, 80, 340, 40, 30, 20)"
  by code_simp

lemma high_carb_days: "log_days high_carb_logs = 1"
  by code_simp

lemma high_carb_distribution:
  "case calorie_distribution 80 340 40 of
     (pp, cp, fp) \<Rightarrow> 15 \<le> pp \<and> pp \<le> 35 \<and> 65 < cp \<and> 15 \<le> fp \<and> fp \<le> 40"
  by code_simp

lemma complete_profile_calories: "calculate_daily_calories complete_profile = Inr 2555"
  by code_simp

lemma high_carb_thresholds:
  "fl (fl 2555 * fl (7 / 10)) \<le> 2040 \<and> 2040 \<le> fl (fl 2555 * fl (13 / 10))
   \<and> fl 2040 = 2040 \<and> fl 30 = 30 \<and> fl 20 = 20"
  by code_simp

lemma high_carb_calorie_insights: "calorie_insights complete_profile 2040 = Inr []"
  using high_carb_thresholds
  by (simp add: calorie_insights_def complete_profile_calories)

lemma high_carb_recommendations:
  "generate_food_recommendations
     [\<lparr>category = ''carbs'', message = ''Your diet is very high in carbohydrates.'',
       recommendation = ''Try to balance your meals with more protein and healthy fats.'',
       priority = ''medium''\<rparr>] p = Inr increase_carbs"
  by (simp add: generate_food_recommendations_def mentions_high_def increase_carbs_def)

text \<open>
  C10: when the rule for too many carbs fires, the carbs suggestions should be the
  carb-reducing list. For the one-day log with 66.7 percent of the calories from carbs
  the only insight is the one for too many carbs, and the recommendations are the
  carb-increasing list.
\<close>

theorem C10_high_carbs_get_increase_list:
  "map_sum id
     (\<lambda>r. (map category (report_insights r), map message (report_insights r),
           report_recommendations r))
     (get_nutrition_insights high_carb_logs complete_profile)
   = Inr ([''carbs''], [''Your diet is very high in carbohydrates.''], Some increase_carbs)
   \<and> set increase_carbs \<inter> set reduce_carbs = {}"
proof -
  obtain pp cp fp where d: "calorie_distribution 80 340 40 = (pp, cp, fp)"
    by (cases "calorie_distribution 80 340 40") auto
  with high_carb_distribution
  have b: "15 \<le> pp" "pp \<le> 35" "65 < cp" "15 \<le> fp" "fp \<le> 40" by simp_all
  have pi: "protein_insights pp = []" using b by (simp add: protein_insights_def)
  have fi: "fat_insights fp = []" using b by (simp add: fat_insights_def)
  have ci: "carbs_insights cp =
     [\<lparr>category = ''carbs'', message = ''Your diet is very high in carbohydrates.'',
       recommendation = ''Try to balance your meals with more protein and healthy fats.'',
       priority = ''medium''\<rparr>]"
    using b by (simp add: carbs_insights_def)
  have ne: "high_carb_logs \<noteq> []" by (simp add: high_carb_logs_def)
  have "get_nutrition_insights high_carb_logs complete_profile =
        Inr (Report
               \<lparr>protein_percentage = py_round_nd 1 pp, carbs_percentage = py_round_nd 1 cp,
                fat_percentage = py_round_nd 1 fp\<rparr>
               \<lparr>avg_calories = py_round_nd 1 2040, avg_protein = py_round_nd 1 (fl 80),
                avg_carbs = py_round_nd 1 (fl 340), avg_fat = py_round_nd 1 (fl 40),
                avg_fiber = py_round_nd 1 30, avg_sugar = py_round_nd 1 20\<rparr>
               (carbs_insights cp) increase_carbs)"
    using high_carb_thresholds
    by (simp add: get_nutrition_insights_def ne high_carb_totals high_carb_days d pi fi
        fiber_insights_def sugar_insights_def high_carb_calorie_insights)
       (simp add: ci high_carb_recommendations)
  moreover have "set increase_carbs \<inter> set reduce_carbs = {}"
    by (simp add: increase_carbs_def reduce_carbs_def)
  ultimately show ?thesis by (simp add: ci)
qed

subsection \<open>Meal plans\<close>

lemma sample_in: "sample rng k pool = Inr f \<Longrightarrow> f \<in> set pool"
  by (auto simp: sample_def split: if_splits)

lemma filter_by_meal_type_subset: "set (filter_by_meal_type foods mt) \<subseteq> set foods"
  by (auto simp: filter_by_meal_type_def)

text \<open>Every meal of a day is made from a row of the pool the day starts from.\<close>

lemma day_meals_names:
  "day_meals fmt ff rng tc ds pl k = Inr (pl', k') \<Longrightarrow>
   \<forall>m \<in> set (meals pl). P (name m) \<Longrightarrow>
   \<forall>f \<in> set ff. P (label f) \<Longrightarrow>
   \<forall>m \<in> set (meals pl'). P (name m)"
proof (induction ds arbitrary: pl k)
  case Nil
  then show ?case by simp
next
  case (Cons a ds)
  obtain mt pct where a: "a = (mt, pct)" by (cases a)
  let ?suit = "filter_by_meal_type ff mt"
  let ?pool = "if ?suit = [] then ff else ?suit"
  from Cons.prems(1) a obtain f where
    f: "sample rng k ?pool = Inr f" and
    rest: "day_meals fmt ff rng tc ds (add_meal pl (make_meal fmt mt (meal_target tc pct) f)) (Suc k)
           = Inr (pl', k')"
    by (auto simp: Let_def split: sum.splits)
  from f have "f \<in> set ?pool" by (rule sample_in)
  then have "f \<in> set ff" using filter_by_meal_type_subset[of ff mt] by (auto split: if_splits)
  then have "P (label f)" using Cons.prems(3) by blast
  then have "\<forall>m \<in> set (meals (add_meal pl (make_meal fmt mt (meal_target tc pct) f))). P (name m)"
    using Cons.prems(2) by (auto simp: add_meal_def make_meal_def Let_def)
  from Cons.IH[OF rest this Cons.prems(3)] show ?case .
qed

text \<open>The meals of a day, in the order of the distribution, each with its calorie target.\<close>

lemma day_meals_targets:
  "day_meals fmt ff rng tc ds pl k = Inr (pl', k') \<Longrightarrow>
   \<exists>fs. length fs = length ds \<and>
        meals pl' = meals pl @ map (\<lambda>((mt, pct), f). make_meal fmt mt (meal_target tc pct) f) (zip ds fs)"
proof (induction ds arbitrary: pl k)
  case Nil
  then show ?case by simp
next
  case (Cons a ds)
  obtain mt pct where a: "a = (mt, pct)" by (cases a)
  from Cons.prems a obtain f where
    rest: "day_meals fmt ff rng tc ds (add_meal pl (make_meal fmt mt (meal_target tc pct) f)) (Suc k)
           = Inr (pl', k')"
    by (auto simp: Let_def split: sum.splits)
  from Cons.IH[OF rest] obtain fs where
    fs: "length fs = length ds"
        "meals pl' = meals (add_meal pl (make_meal fmt mt (meal_target tc pct) f))
           @ map (\<lambda>((mt, pct), f). make_meal fmt mt (meal_target tc pct) f) (zip ds fs)"
    by blast
  have "length (f # fs) = length (a # ds)" using fs(1) by simp
  moreover have "meals pl' = meals pl
      @ map (\<lambda>((mt, pct), f). make_meal fmt mt (meal_target tc pct) f) (zip (a # ds) (f # fs))"
    using fs(2) a by (simp add: add_meal_def)
  ultimately show ?case by blast
qed

lemma generate_day_plan_targets:
  assumes "generate_day_plan fmt db rng k tc mcs p = Inr (d, k')"
  shows "\<exists>f1 f2 f3 f4.
     meals d =
       [make_meal fmt ''breakfast'' (meal_target tc (fl (25 / 100))) f1,
        make_meal fmt ''lunch'' (meal_target tc (fl (35 / 100))) f2,
        make_meal fmt ''dinner'' (meal_target tc (fl (30 / 100))) f3,
        make_meal fmt ''snack'' (meal_target tc (fl (10 / 100))) f4]"
proof -
  from assms obtain ff pl where
    dm: "day_meals fmt ff rng tc meal_distribution
           \<lparr>meals = [], totalCalories = 0, totalProtein = 0, totalCarbs = 0, totalFat = 0\<rparr> k
         = Inr (pl, k')"
    and d: "meals d = meals pl"
    by (auto simp: generate_day_plan_def Let_def split: sum.splits prod.splits)
  from day_meals_targets[OF dm] obtain fs where
    fs: "length fs = length meal_distribution"
        "meals pl = map (\<lambda>((mt, pct), f). make_meal fmt mt (meal_target tc pct) f)
                      (zip meal_distribution fs)"
    by auto
  from fs(1) obtain f1 f2 f3 f4 where "fs = [f1, f2, f3, f4]"
    by (auto simp: meal_distribution_def length_Suc_conv)
  with fs(2) d show ?thesis by (auto simp: meal_distribution_def)
qed

lemma generate_day_plan_names:
  assumes "generate_day_plan fmt db rng k tc mcs p = Inr (d, k')"
    and "dietary_preferences p = Val prefs"
    and "str_in ''vegetarian'' (lower prefs)"
  shows "\<forall>m \<in> set (meals d). \<not> contains_any meat_keywords (lower (name m))"
proof -
  let ?ff = "filter (\<lambda>f. \<not> label_matches meat_keywords f) db"
  let ?P = "\<lambda>s. \<not> contains_any meat_keywords (lower s)"
  from assms obtain pl where
    dm: "day_meals fmt ?ff rng tc meal_distribution
           \<lparr>meals = [], totalCalories = 0, totalProtein = 0, totalCarbs = 0, totalFat = 0\<rparr> k
         = Inr (pl, k')"
    and d: "meals d = meals pl"
    by (auto simp: generate_day_plan_def py_lower_def Let_def split: sum.splits prod.splits)
  have "\<forall>f \<in> set ?ff. ?P (label f)" by (simp add: label_matches_def)
  with day_meals_names[OF dm, of ?P] have "\<forall>m \<in> set (meals pl). ?P (name m)" by simp
  with d show ?thesis by simp
qed

lemma set_update_subset: "set (AList.update k v al) \<subseteq> insert (k, v) (set al)"
  by (induction al) auto

text \<open>What holds of every generated day holds of every day of the plan.\<close>

lemma plan_days_all:
  assumes gen: "\<And>k d k'. generate_day_plan fmt db rng k tc mcs p = Inr (d, k') \<Longrightarrow> Q d"
  shows "plan_days fmt db rng tc mcs p idxs acc k = Inr plan \<Longrightarrow>
   \<forall>(day, d) \<in> set acc. Q d \<Longrightarrow> \<forall>(day, d) \<in> set plan. Q d"
proof (induction idxs arbitrary: acc k)
  case Nil
  then show ?case by simp
next
  case (Cons i idxs)
  from Cons.prems(1) obtain d k' where
    g: "generate_day_plan fmt db rng k tc mcs p = Inr (d, k')" and
    rest: "plan_days fmt db rng tc mcs p idxs (AList.update (days_of_week ! (i mod 7)) d acc) k'
           = Inr plan"
    by (auto simp: Let_def split: sum.splits)
  have "\<forall>(day, d) \<in> set (AList.update (days_of_week ! (i mod 7)) d acc). Q d"
    using set_update_subset[of "days_of_week ! (i mod 7)" d acc] Cons.prems(2) gen[OF g]
    by fastforce
  from Cons.IH[OF rest this] show ?case .
qed

lemma generate_meal_plan_unfold:
  assumes "generate_meal_plan fmt db rng p days = Some plan"
  shows "\<exists>foods tc mcs. db = Some foods \<and> calculate_daily_calories p = Inr tc
     \<and> calculate_macros p tc = Inr mcs
     \<and> plan_days fmt foods rng tc mcs p [0..<nat days] [] 0 = Inr plan"
  using assms by (auto simp: generate_meal_plan_def split: option.splits sum.splits)

text \<open>When the pool is not empty every day is generated, and so is the plan.\<close>

lemma day_meals_succeeds:
  "ff \<noteq> [] \<Longrightarrow> \<exists>pl'. day_meals fmt ff rng tc ds pl k = Inr (pl', k + length ds)"
proof (induction ds arbitrary: pl k)
  case Nil
  then show ?case by simp
next
  case (Cons a ds)
  obtain mt pct where a: "a = (mt, pct)" by (cases a)
  let ?suit = "filter_by_meal_type ff mt"
  let ?pool = "if ?suit = [] then ff else ?suit"
  have "?pool \<noteq> []" using Cons.prems by simp
  then obtain f where f: "sample rng k ?pool = Inr f" by (auto simp: sample_def)
  from Cons.IH[OF Cons.prems, of "add_meal pl (make_meal fmt mt (meal_target tc pct) f)" "Suc k"]
  obtain pl' where
    "day_meals fmt ff rng tc ds (add_meal pl (make_meal fmt mt (meal_target tc pct) f)) (Suc k)
     = Inr (pl', Suc k + length ds)" by blast
  with f a show ?case by (simp add: Let_def)
qed

lemma generate_day_plan_succeeds:
  assumes "(case dietary_preferences p of Absent \<Rightarrow> Inr [] | v \<Rightarrow> py_lower v) = Inr prefs"
    and "(if str_in ''vegetarian'' prefs
          then filter (\<lambda>f. \<not> label_matches meat_keywords f) db else db) \<noteq> []"
  shows "\<exists>d k'. generate_day_plan fmt db rng k tc mcs p = Inr (d, k')"
proof -
  let ?ff = "if str_in ''vegetarian'' prefs
             then filter (\<lambda>f. \<not> label_matches meat_keywords f) db else db"
  from day_meals_succeeds[OF assms(2)] obtain pl' where
    "day_meals fmt ?ff rng tc meal_distribution
       \<lparr>meals = [], totalCalories = 0, totalProtein = 0, totalCarbs = 0, totalFat = 0\<rparr> k
     = Inr (pl', k + length meal_distribution)" by blast
  then show ?thesis using assms(1) by (simp add: generate_day_plan_def Let_def)
qed

lemma plan_days_succeeds:
  assumes "\<And>k. \<exists>d k'. generate_day_plan fmt db rng k tc mcs p = Inr (d, k')"
  shows "\<exists>plan. plan_days fmt db rng tc mcs p idxs acc k = Inr plan"
proof (induction idxs arbitrary: acc k)
  case Nil
  then show ?case by simp
next
  case (Cons i idxs)
  from assms[of k] obtain d k' where g: "generate_day_plan fmt db rng k tc mcs p = Inr (d, k')"
    by blast
  from Cons.IH[of "AList.update (days_of_week ! (i mod 7)) d acc" k'] g
  show ?case by (simp add: Let_def)
qed

lemma generate_meal_plan_succeeds:
  assumes "calculate_daily_calories p = Inr tc"
    and "calculate_macros p tc = Inr mcs"
    and "(case dietary_preferences p of Absent \<Rightarrow> Inr [] | v \<Rightarrow> py_lower v) = Inr prefs"
    and "(if str_in ''vegetarian'' prefs
          then filter (\<lambda>f. \<not> label_matches meat_keywords f) foods else foods) \<noteq> []"
  shows "\<exists>plan. generate_meal_plan fmt (Some foods) rng p days = Some plan"
proof -
  from plan_days_succeeds[of fmt foods rng tc mcs p "[0..<nat days]" "[]" 0]
    generate_day_plan_succeeds[OF assms(3,4)]
  obtain plan where "plan_days fmt foods rng tc mcs p [0..<nat days] [] 0 = Inr plan" by blast
  then show ?thesis using assms(1,2) by (simp add: generate_meal_plan_def)
qed

text \<open>The keys of the plan: the first day names, at most seven of them.\<close>

lemma days_of_week_distinct: "distinct days_of_week"
  by (simp add: days_of_week_def)

lemma days_of_week_length: "length days_of_week = 7"
  by (simp add: days_of_week_def)

lemma plan_days_keys:
  "plan_days fmt db rng tc mcs p [i..<n] acc k = Inr plan \<Longrightarrow>
   map fst acc = take i days_of_week \<Longrightarrow>
   map fst plan = take (max i n) days_of_week"
proof (induction "n - i" arbitrary: i acc k)
  case 0
  then show ?case by (simp add: max_def)
next
  case (Suc m)
  then have lt: "i < n" by simp
  then have up: "[i..<n] = i # [Suc i..<n]" by (simp add: upt_conv_Cons)
  let ?day = "days_of_week ! (i mod 7)"
  from Suc.prems(1) up obtain d k' where
    rest: "plan_days fmt db rng tc mcs p [Suc i..<n] (AList.update ?day d acc) k' = Inr plan"
    by (auto simp: Let_def split: sum.splits)
  have keys: "map fst (AList.update ?day d acc) = take (Suc i) days_of_week"
  proof (cases "i < 7")
    case True
    then have "?day = days_of_week ! i" by simp
    moreover have "days_of_week ! i \<notin> set (take i days_of_week)"
      using True days_of_week_distinct days_of_week_length
      by (metis distinct_take id_take_nth_drop not_distinct_conv_prefix)
    ultimately show ?thesis
      using Suc.prems(2) True days_of_week_length
      by (simp add: update_keys take_Suc_conv_app_nth)
  next
    case False
    then have all: "take i days_of_week = days_of_week" "take (Suc i) days_of_week = days_of_week"
      using days_of_week_length by simp_all
    have "?day \<in> set days_of_week" using days_of_week_length by simp
    then show ?thesis using Suc.prems(2) all by (simp add: update_keys)
  qed
  have "m = n - Suc i" using Suc.hyps(2) by simp
  from Suc.hyps(1)[OF this rest keys] lt show ?case by (simp add: max_def)
qed

lemma generate_meal_plan_keys:
  assumes "generate_meal_plan fmt db rng p days = Some plan"
  shows "map fst plan = take (nat days) days_of_week"
proof -
  from generate_meal_plan_unfold[OF assms] obtain foods tc mcs where
    "plan_days fmt foods rng tc mcs p [0..<nat days] [] 0 = Inr plan" by blast
  from plan_days_keys[OF this] show ?thesis by simp
qed

text \<open>A plan for one day is the plan of Monday, generated at position 0 of the random source.\<close>

lemma one_day_plan:
  assumes "generate_meal_plan fmt (Some foods) rng p 1 = Some plan"
  shows "\<exists>tc mcs d k'. calculate_daily_calories p = Inr tc
     \<and> generate_day_plan fmt foods rng 0 tc mcs p = Inr (d, k')
     \<and> plan = [(''monday'', d)]"
proof -
  from generate_meal_plan_unfold[OF assms] obtain tc mcs where
    tc: "calculate_daily_calories p = Inr tc" and
    pd: "plan_days fmt foods rng tc mcs p [0..<nat 1] [] 0 = Inr plan"
    by auto
  from pd obtain d k' where
    "generate_day_plan fmt foods rng 0 tc mcs p = Inr (d, k')" "plan = [(''monday'', d)]"
    by (auto simp: Let_def days_of_week_def split: sum.splits)
  with tc show ?thesis by blast
qed

text \<open>The pools of the small food table, and the rows the random source \<open>rng0\<close> draws.\<close>

lemma complete_pools:
  "filter_by_meal_type small_catalog ''breakfast'' = [pancakes]
   \<and> filter_by_meal_type small_catalog ''lunch'' = [chicken_salad, veggie_bowl]
   \<and> filter_by_meal_type small_catalog ''dinner'' = [chicken_salad, veggie_bowl]
   \<and> filter_by_meal_type small_catalog ''snack'' = []"
  by code_simp

lemma vegetarian_pool:
  "filter (\<lambda>f. \<not> label_matches meat_keywords f) small_catalog = [veggie_bowl, pancakes]"
  by code_simp

lemma vegetarian_pools:
  "filter_by_meal_type [veggie_bowl, pancakes] ''breakfast'' = [pancakes]
   \<and> filter_by_meal_type [veggie_bowl, pancakes] ''lunch'' = [veggie_bowl]
   \<and> filter_by_meal_type [veggie_bowl, pancakes] ''dinner'' = [veggie_bowl]
   \<and> filter_by_meal_type [veggie_bowl, pancakes] ''snack'' = []"
  by code_simp

lemma vegetarian_word: "str_in ''vegetarian'' (lower ''Vegetarian'')"
  by code_simp

text \<open>The meals of a day with the rows drawn: row \<open>rng i\<close> of the pool of the meal type.\<close>

lemma day_meals_drawn:
  "day_meals fmt ff rng tc ds pl k = Inr (pl', k') \<Longrightarrow>
   meals pl' = meals pl @
     map (\<lambda>(i, (mt, pct)).
            make_meal fmt mt (meal_target tc pct)
              ((if filter_by_meal_type ff mt = [] then ff else filter_by_meal_type ff mt)
               ! (rng i mod length
                    (if filter_by_meal_type ff mt = [] then ff else filter_by_meal_type ff mt))))
       (enumerate k ds)"
proof (induction ds arbitrary: pl k)
  case Nil
  then show ?case by simp
next
  case (Cons a ds)
  obtain mt pct where a: "a = (mt, pct)" by (cases a)
  let ?pool = "if filter_by_meal_type ff mt = [] then ff else filter_by_meal_type ff mt"
  let ?f = "?pool ! (rng k mod length ?pool)"
  from Cons.prems a have
    rest: "day_meals fmt ff rng tc ds (add_meal pl (make_meal fmt mt (meal_target tc pct) ?f)) (Suc k)
           = Inr (pl', k')"
    by (auto simp: Let_def sample_def split: sum.splits if_splits)
  from Cons.IH[OF rest] show ?case
    unfolding a by (simp add: add_meal_def)
qed

lemma generate_day_plan_drawn:
  assumes "generate_day_plan fmt db rng 0 tc mcs p = Inr (d, k')"
    and "(case dietary_preferences p of Absent \<Rightarrow> Inr [] | v \<Rightarrow> py_lower v) = Inr prefs"
    and "ff = (if str_in ''vegetarian'' prefs
               then filter (\<lambda>f. \<not> label_matches meat_keywords f) db else db)"
  shows "meals d =
     [make_meal fmt ''breakfast'' (meal_target tc (fl (25 / 100)))
        ((if filter_by_meal_type ff ''breakfast'' = [] then ff
          else filter_by_meal_type ff ''breakfast'')
         ! (rng 0 mod length (if filter_by_meal_type ff ''breakfast'' = [] then ff
                              else filter_by_meal_type ff ''breakfast''))),
      make_meal fmt ''lunch'' (meal_target tc (fl (35 / 100)))
        ((if filter_by_meal_type ff ''lunch'' = [] then ff
          else filter_by_meal_type ff ''lunch'')
         ! (rng 1 mod length (if filter_by_meal_type ff ''lunch'' = [] then ff
                              else filter_by_meal_type ff ''lunch''))),
      make_meal fmt ''dinner'' (meal_target tc (fl (30 / 100)))
        ((if filter_by_meal_type ff ''dinner'' = [] then ff
          else filter_by_meal_type ff ''dinner'')
         ! (rng 2 mod length (if filter_by_meal_type ff ''dinner'' = [] then ff
                              else filter_by_meal_type ff ''dinner''))),
      make_meal fmt ''snack'' (meal_target tc (fl (10 / 100)))
        ((if filter_by_meal_type ff ''snack'' = [] then ff
          else filter_by_meal_type ff ''snack'')
         ! (rng 3 mod length (if filter_by_meal_type ff ''snack'' = [] then ff
                              else filter_by_meal_type ff ''snack'')))]"
proof -
  from assms obtain pl where
    dm: "day_meals fmt ff rng tc meal_distribution
           \<lparr>meals = [], totalCalories = 0, totalProtein = 0, totalCarbs = 0, totalFat = 0\<rparr> 0
         = Inr (pl, k')"
    and d: "meals d = meals pl"
    by (auto simp: generate_day_plan_def Let_def split: sum.splits prod.splits)
  from day_meals_drawn[OF dm] d show ?thesis
    by (simp add: meal_distribution_def numeral_2_eq_2 numeral_3_eq_3)
qed

lemma draws:
  "(2::nat) mod Suc (Suc 0) = 0" "(3::nat) mod Suc (Suc 0) = Suc 0"
  "(3::nat) mod Suc (Suc (Suc 0)) = 0"
  by presburger+

lemma complete_day:
  assumes "generate_day_plan fmt small_catalog rng0 0 tc mcs complete_profile = Inr (d, k')"
  shows "meals d =
     [make_meal fmt ''breakfast'' (meal_target tc (fl (25 / 100))) pancakes,
      make_meal fmt ''lunch'' (meal_target tc (fl (35 / 100))) veggie_bowl,
      make_meal fmt ''dinner'' (meal_target tc (fl (30 / 100))) chicken_salad,
      make_meal fmt ''snack'' (meal_target tc (fl (10 / 100))) chicken_salad]"
proof -
  have p: "(case dietary_preferences complete_profile of Absent \<Rightarrow> Inr [] | v \<Rightarrow> py_lower v)
           = Inr []"
    by (simp add: complete_profile_def py_lower_def lower_def)
  have f: "small_catalog = (if str_in ''vegetarian'' []
               then filter (\<lambda>f. \<not> label_matches meat_keywords f) small_catalog
               else small_catalog)"
    by simp
  have c: "small_catalog = [chicken_salad, veggie_bowl, pancakes]"
    by (simp add: small_catalog_def)
  show ?thesis
    unfolding generate_day_plan_drawn[OF assms p f]
    by (simp add: complete_pools rng0_def draws) (simp add: c draws)
qed

lemma vegetarian_day:
  assumes "generate_day_plan fmt small_catalog rng0 0 tc mcs vegetarian_profile = Inr (d, k')"
  shows "meals d =
     [make_meal fmt ''breakfast'' (meal_target tc (fl (25 / 100))) pancakes,
      make_meal fmt ''lunch'' (meal_target tc (fl (35 / 100))) veggie_bowl,
      make_meal fmt ''dinner'' (meal_target tc (fl (30 / 100))) veggie_bowl,
      make_meal fmt ''snack'' (meal_target tc (fl (10 / 100))) pancakes]"
proof -
  have p: "(case dietary_preferences vegetarian_profile of Absent \<Rightarrow> Inr [] | v \<Rightarrow> py_lower v)
           = Inr (lower ''Vegetarian'')"
    by (simp add: vegetarian_profile_def py_lower_def)
  have f: "[veggie_bowl, pancakes] = (if str_in ''vegetarian'' (lower ''Vegetarian'')
               then filter (\<lambda>f. \<not> label_matches meat_keywords f) small_catalog
               else small_catalog)"
    using vegetarian_word vegetarian_pool by simp
  show ?thesis
    unfolding generate_day_plan_drawn[OF assms p f]
    by (simp add: vegetarian_pools rng0_def draws)
qed

lemma complete_profile_macros:
  "\<exists>mcs. calculate_macros complete_profile 2555 = Inr mcs"
  by (simp add: calculate_macros_def macro_split_def py_lower_def present_def
      complete_profile_def sample_profile_def lower_def)

lemma vegetarian_profile_calories: "calculate_daily_calories vegetarian_profile = Inr 2555"
  by code_simp

lemma vegetarian_profile_macros:
  "\<exists>mcs. calculate_macros vegetarian_profile 2555 = Inr mcs"
  by (simp add: calculate_macros_def macro_split_def py_lower_def present_def sample_profile_def
      vegetarian_profile_def lower_def)

lemma complete_plan_exists:
  "\<exists>plan. generate_meal_plan fmt0 (Some small_catalog) rng0 complete_profile days = Some plan"
proof -
  obtain mcs where m: "calculate_macros complete_profile 2555 = Inr mcs"
    using complete_profile_macros by blast
  have p: "(case dietary_preferences complete_profile of Absent \<Rightarrow> Inr [] | v \<Rightarrow> py_lower v)
           = Inr []"
    by (simp add: complete_profile_def py_lower_def lower_def)
  have c: "(if str_in ''vegetarian'' []
            then filter (\<lambda>f. \<not> label_matches meat_keywords f) small_catalog
            else small_catalog) \<noteq> []"
    by (simp add: small_catalog_def)
  from generate_meal_plan_succeeds[OF complete_profile_calories m p c] show ?thesis .
qed

lemma vegetarian_plan_exists:
  "\<exists>plan. generate_meal_plan fmt0 (Some small_catalog) rng0 vegetarian_profile days = Some plan"
proof -
  obtain mcs where m: "calculate_macros vegetarian_profile 2555 = Inr mcs"
    using vegetarian_profile_macros by blast
  have p: "(case dietary_preferences vegetarian_profile of Absent \<Rightarrow> Inr [] | v \<Rightarrow> py_lower v)
           = Inr (lower ''Vegetarian'')"
    by (simp add: vegetarian_profile_def py_lower_def)
  have c: "(if str_in ''vegetarian'' (lower ''Vegetarian'')
            then filter (\<lambda>f. \<not> label_matches meat_keywords f) small_catalog
            else small_catalog) \<noteq> []"
    using vegetarian_pool vegetarian_word by simp
  from generate_meal_plan_succeeds[OF vegetarian_profile_calories m p c] show ?thesis .
qed

subsection \<open>The number of day plans\<close>

text \<open>
  C1: a horizon of \<open>days\<close> should give \<open>days\<close> day plans, the names cycling after
  Sunday. The plan is a dictionary keyed by the day name, so the plan generated for the
  eighth day replaces the one stored under Monday: a horizon of 8 days over the small
  food table gives the 7 plans Monday to Sunday.
\<close>

theorem C1_eight_days_give_seven_plans:
  "map_option (map fst) (generate_meal_plan fmt0 (Some small_catalog) rng0 complete_profile 8)
     = Some [''monday'', ''tuesday'', ''wednesday'', ''thursday'', ''friday'', ''saturday'',
             ''sunday'']
   \<and> map_option length (generate_meal_plan fmt0 (Some small_catalog) rng0 complete_profile 8)
     = Some 7"
proof -
  obtain plan where
    p: "generate_meal_plan fmt0 (Some small_catalog) rng0 complete_profile 8 = Some plan"
    using complete_plan_exists by blast
  from generate_meal_plan_keys[OF p] have k: "map fst plan = days_of_week"
    by (simp add: days_of_week_length)
  then have "length plan = 7" using days_of_week_length by (metis length_map)
  with p k show ?thesis by (simp add: days_of_week_def)
qed

subsection \<open>The calorie target of a meal\<close>

lemma share_targets:
  "meal_target 2000 (fl (25 / 100)) = 500 \<and> meal_target 2000 (fl (35 / 100)) = 700
   \<and> meal_target 2000 (fl (30 / 100)) = 600 \<and> meal_target 2000 (fl (10 / 100)) = 200
   \<and> meal_target 2555 (fl (25 / 100)) = 638 \<and> meal_target 2555 (fl (35 / 100)) = 894
   \<and> meal_target 2555 (fl (30 / 100)) = 766 \<and> meal_target 2555 (fl (10 / 100)) = 255"
  by code_simp

lemma claimed_targets:
  "fl (2000 * fl (25 / 100)) = 500 \<and> fl (2000 * fl (30 / 100)) = 600
   \<and> fl (2000 * fl (15 / 100)) = 300 \<and> fl (2555 * fl (25 / 100)) = 2555 / 4"
  by code_simp

text \<open>
  C5 (as stated): each meal gets the daily calories times its share of the table 0.25,
  0.30, 0.30, 0.15. For 2000 kcal a day that would be 500, 600, 600 and 300 kcal; the
  recommender's targets are 500, 700, 600 and 200 kcal. For 2555 kcal a day the
  breakfast target is 638 kcal and not 638.75: the product is truncated.
\<close>

theorem C5_shares_counterexample:
  "map (\<lambda>(mt, pct). (mt, rat_of_int (meal_target 2000 pct))) meal_distribution
   \<noteq> [(''breakfast'', fl (2000 * fl (25 / 100))),
       (''lunch'', fl (2000 * fl (30 / 100))),
       (''dinner'', fl (2000 * fl (30 / 100))),
       (''snack'', fl (2000 * fl (15 / 100)))]
   \<and> rat_of_int (meal_target 2555 (fl (25 / 100))) \<noteq> fl (2555 * fl (25 / 100))"
  using share_targets claimed_targets by (simp add: meal_distribution_def)

text \<open>
  C5 (amended): every day of a generated plan has the four meals breakfast, lunch,
  dinner, snack in this order, each made from one food row for the calorie target
  \<open>int(daily_calories * share)\<close> with the one share table 0.25, 0.35, 0.30, 0.10 of the
  recommender, whose decimal shares sum to 1.00. The shares 0.25, 0.30, 0.30 and 0.15
  are those of the route \<open>/meal-plan/generate\<close>, which truncates the same way.
\<close>

theorem C5_meal_targets:
  assumes "generate_meal_plan fmt db rng p days = Some plan"
    and "(day, d) \<in> set plan"
  shows "\<exists>tc f1 f2 f3 f4.
     calculate_daily_calories p = Inr tc
     \<and> meals d =
         [make_meal fmt ''breakfast'' (py_int (fl (fl (of_int tc) * fl (25 / 100)))) f1,
          make_meal fmt ''lunch'' (py_int (fl (fl (of_int tc) * fl (35 / 100)))) f2,
          make_meal fmt ''dinner'' (py_int (fl (fl (of_int tc) * fl (30 / 100)))) f3,
          make_meal fmt ''snack'' (py_int (fl (fl (of_int tc) * fl (10 / 100)))) f4]
     \<and> map meal_type (meals d) = [''breakfast'', ''lunch'', ''dinner'', ''snack'']
     \<and> map snd meal_distribution = [fl (25 / 100), fl (35 / 100), fl (30 / 100), fl (10 / 100)]
     \<and> (25 / 100 + 35 / 100 + 30 / 100 + 10 / 100 :: rat) = 1
     \<and> map (route_meal_calories tc) [''breakfast'', ''lunch'', ''dinner'', ''snack'']
         = [py_int (fl (fl (of_int tc) * fl (25 / 100))),
            py_int (fl (fl (of_int tc) * fl (30 / 100))),
            py_int (fl (fl (of_int tc) * fl (30 / 100))),
            py_int (fl (fl (of_int tc) * fl (15 / 100)))]"
proof -
  from generate_meal_plan_unfold[OF assms(1)] obtain foods tc mcs where
    tc: "calculate_daily_calories p = Inr tc" and
    pd: "plan_days fmt foods rng tc mcs p [0..<nat days] [] 0 = Inr plan"
    by blast
  let ?Q = "\<lambda>d. \<exists>f1 f2 f3 f4.
     meals d =
       [make_meal fmt ''breakfast'' (meal_target tc (fl (25 / 100))) f1,
        make_meal fmt ''lunch'' (meal_target tc (fl (35 / 100))) f2,
        make_meal fmt ''dinner'' (meal_target tc (fl (30 / 100))) f3,
        make_meal fmt ''snack'' (meal_target tc (fl (10 / 100))) f4]"
  have "\<forall>(day, d) \<in> set plan. ?Q d"
    by (rule plan_days_all[where Q = ?Q, OF _ pd]) (erule generate_day_plan_targets, simp)
  with assms(2) have "?Q d" by blast
  then obtain f1 f2 f3 f4 where
    m: "meals d =
       [make_meal fmt ''breakfast'' (meal_target tc (fl (25 / 100))) f1,
        make_meal fmt ''lunch'' (meal_target tc (fl (35 / 100))) f2,
        make_meal fmt ''dinner'' (meal_target tc (fl (30 / 100))) f3,
        make_meal fmt ''snack'' (meal_target tc (fl (10 / 100))) f4]"
    by blast
  have t: "map meal_type (meals d) = [''breakfast'', ''lunch'', ''dinner'', ''snack'']"
    by (simp add: m make_meal_def Let_def)
  have s: "map snd meal_distribution = [fl (25 / 100), fl (35 / 100), fl (30 / 100), fl (10 / 100)]"
    by (simp add: meal_distribution_def)
  have o: "(25 / 100 + 35 / 100 + 30 / 100 + 10 / 100 :: rat) = 1" by simp
  have r: "map (route_meal_calories tc) [''breakfast'', ''lunch'', ''dinner'', ''snack'']
         = [py_int (fl (fl (of_int tc) * fl (25 / 100))),
            py_int (fl (fl (of_int tc) * fl (30 / 100))),
            py_int (fl (fl (of_int tc) * fl (30 / 100))),
            py_int (fl (fl (of_int tc) * fl (15 / 100)))]"
    by (simp add: route_meal_calories_def)
  show ?thesis
    apply (rule exI[of _ tc], rule exI[of _ f1], rule exI[of _ f2], rule exI[of _ f3],
        rule exI[of _ f4])
    using tc m[unfolded meal_target_def] t s o r by (intro conjI)
qed

theorem C5_meal_targets_witness:
  "\<exists>d. generate_meal_plan fmt0 (Some small_catalog) rng0 complete_profile 1
         = Some [(''monday'', d)]
     \<and> calculate_daily_calories complete_profile = Inr 2555
     \<and> meals d =
         [make_meal fmt0 ''breakfast'' 638 pancakes,
          make_meal fmt0 ''lunch'' 894 veggie_bowl,
          make_meal fmt0 ''dinner'' 766 chicken_salad,
          make_meal fmt0 ''snack'' 255 chicken_salad]
     \<and> map meal_type (meals d) = [''breakfast'', ''lunch'', ''dinner'', ''snack'']"
proof -
  obtain plan where
    p: "generate_meal_plan fmt0 (Some small_catalog) rng0 complete_profile 1 = Some plan"
    using complete_plan_exists by blast
  from one_day_plan[OF p] obtain tc mcs d k' where
    tc: "calculate_daily_calories complete_profile = Inr tc" and
    g: "generate_day_plan fmt0 small_catalog rng0 0 tc mcs complete_profile = Inr (d, k')" and
    pl: "plan = [(''monday'', d)]"
    by blast
  from tc complete_profile_calories have tc': "tc = 2555" by simp
  from pl have d: "(''monday'', d) \<in> set plan" by simp
  from C5_meal_targets [OF p d]
  have t: "map meal_type (meals d) = [''breakfast'', ''lunch'', ''dinner'', ''snack'']"
    by blast
  from complete_day[OF g] tc' share_targets
  have m: "meals d =
         [make_meal fmt0 ''breakfast'' 638 pancakes,
          make_meal fmt0 ''lunch'' 894 veggie_bowl,
          make_meal fmt0 ''dinner'' 766 chicken_salad,
          make_meal fmt0 ''snack'' 255 chicken_salad]"
    by simp
  from p pl have p': "generate_meal_plan fmt0 (Some small_catalog) rng0 complete_profile 1
         = Some [(''monday'', d)]"
    by simp
  show ?thesis
    by (rule exI[of _ d]) (intro conjI p' complete_profile_calories m t)
qed

subsection \<open>Vegetarian plans\<close>

text \<open>
  C7: for a profile whose dietary preference contains vegetarian, in any letter case,
  for every food table, every random source and every horizon, no meal of a generated
  plan has a name that contains one of the meat keywords, compared in lower case. The
  meals drawn after the fallback to the whole pool are covered: that pool is the
  filtered one.
\<close>

theorem C7_vegetarian_plans_have_no_meat:
  assumes "dietary_preferences p = Val prefs"
    and "str_in ''vegetarian'' (lower prefs)"
    and "generate_meal_plan fmt db rng p days = Some plan"
    and "(day, d) \<in> set plan"
    and "m \<in> set (meals d)"
  shows "\<forall>kw \<in> set meat_keywords. \<not> str_in kw (lower (name m))"
proof -
  from generate_meal_plan_unfold[OF assms(3)] obtain foods tc mcs where
    pd: "plan_days fmt foods rng tc mcs p [0..<nat days] [] 0 = Inr plan"
    by blast
  let ?Q = "\<lambda>d. \<forall>m \<in> set (meals d). \<not> contains_any meat_keywords (lower (name m))"
  have "\<forall>(day, d) \<in> set plan. ?Q d"
    by (rule plan_days_all[where Q = ?Q, OF _ pd])
       (auto dest: generate_day_plan_names[OF _ assms(1,2)])
  with assms(4,5) have "\<not> contains_any meat_keywords (lower (name m))" by blast
  then show ?thesis by (simp add: contains_any_def list_ex_iff)
qed

theorem C7_vegetarian_plans_have_no_meat_witness:
  "dietary_preferences vegetarian_profile = Val ''Vegetarian''
   \<and> str_in ''vegetarian'' (lower ''Vegetarian'')
   \<and> (\<exists>d. generate_meal_plan fmt0 (Some small_catalog) rng0 vegetarian_profile 1
             = Some [(''monday'', d)]
        \<and> map name (meals d)
            = [''Pancakes'', ''Veggie Rice Bowl'', ''Veggie Rice Bowl'', ''Pancakes'']
        \<and> list_all (\<lambda>m. \<not> list_ex (\<lambda>kw. str_in kw (lower (name m))) meat_keywords) (meals d))"
proof -
  have v: "dietary_preferences vegetarian_profile = Val ''Vegetarian''"
    by (simp add: vegetarian_profile_def)
  obtain plan where
    p: "generate_meal_plan fmt0 (Some small_catalog) rng0 vegetarian_profile 1 = Some plan"
    using vegetarian_plan_exists by blast
  from one_day_plan[OF p] obtain tc mcs d k' where
    g: "generate_day_plan fmt0 small_catalog rng0 0 tc mcs vegetarian_profile = Inr (d, k')" and
    pl: "plan = [(''monday'', d)]"
    by blast
  from pl have d: "(''monday'', d) \<in> set plan" by simp
  have "\<forall>m \<in> set (meals d). \<forall>kw \<in> set meat_keywords. \<not> str_in kw (lower (name m))"
    using C7_vegetarian_plans_have_no_meat [OF v vegetarian_word p d] by blast
  then have a: "list_all (\<lambda>m. \<not> list_ex (\<lambda>kw. str_in kw (lower (name m))) meat_keywords) (meals d)"
    by (simp add: list_all_iff list_ex_iff)
  have n: "map name (meals d)
            = [''Pancakes'', ''Veggie Rice Bowl'', ''Veggie Rice Bowl'', ''Pancakes'']"
    by (simp add: vegetarian_day[OF g] make_meal_def Let_def veggie_bowl_def pancakes_def)
  from p pl have p': "generate_meal_plan fmt0 (Some small_catalog) rng0 vegetarian_profile 1
         = Some [(''monday'', d)]"
    by simp
  have "\<exists>d. generate_meal_plan fmt0 (Some small_catalog) rng0 vegetarian_profile 1
             = Some [(''monday'', d)]
        \<and> map name (meals d)
            = [''Pancakes'', ''Veggie Rice Bowl'', ''Veggie Rice Bowl'', ''Pancakes'']
        \<and> list_all (\<lambda>m. \<not> list_ex (\<lambda>kw. str_in kw (lower (name m))) meat_keywords) (meals d)"
    by (rule exI[of _ d]) (intro conjI p' n a)
  then show ?thesis
    by (intro conjI v vegetarian_word)
qed

end
